theory Spec2Isabelle
  imports Complex_Main
begin

section \<open>The IGC parser of go-igc (parser.go), embedded in HOL\<close>

text \<open>
  Conventions of the embedding.
  \<^item> A Go \<^verbatim>\<open>[]byte\<close> or \<^verbatim>\<open>string\<close> is a \<open>string\<close> (a list of 8-bit characters).
  \<^item> A Go \<^verbatim>\<open>int\<close> (64 bits) is an \<open>int\<close> kept in range by \<open>wrap64\<close> wherever the
    source's arithmetic can overflow.
  \<^item> A \<^verbatim>\<open>time.Time\<close> in UTC is the number of nanoseconds since the zero time
    (1 January of year 1, 00:00:00 UTC), so that \<^verbatim>\<open>IsZero\<close> is \<open>t = 0\<close> and
    \<^verbatim>\<open>Before\<close> is \<open><\<close>. Go keeps 64-bit seconds, a range the parser's dates
    (years 1993 to 2092, plus rollover days) cannot leave.
  \<^item> A run of the code either returns, panics (a slice out of range) or never returns
    (\<^verbatim>\<open>intPow\<close> with a negative exponent): the type \<open>exec\<close>.
  \<^item> \<^verbatim>\<open>errors.Join(errs...)\<close> is the list of the joined errors, the empty list
    being \<^verbatim>\<open>nil\<close>.
\<close>

subsection \<open>Bytes and character classes of the regular expressions\<close>

type_synonym bytes = string

definition byte :: "char \<Rightarrow> nat" where
  "byte c = of_char c"

text \<open>\<^verbatim>\<open>\d\<close>, \<^verbatim>\<open>[A-Z]\<close>, \<^verbatim>\<open>[0-9A-Z]\<close>, \<^verbatim>\<open>[0-9\-]\<close> and \<^verbatim>\<open>.\<close> (any character but a line feed).\<close>

definition isDigit :: "char \<Rightarrow> bool" where
  "isDigit c = (48 \<le> byte c \<and> byte c \<le> 57)"

definition isUpper :: "char \<Rightarrow> bool" where
  "isUpper c = (65 \<le> byte c \<and> byte c \<le> 90)"

definition isDigitOrUpper :: "char \<Rightarrow> bool" where
  "isDigitOrUpper c = (isDigit c \<or> isUpper c)"

definition isDigitOrMinus :: "char \<Rightarrow> bool" where
  "isDigitOrMinus c = (isDigit c \<or> c = CHR ''-'')"

definition isDot :: "char \<Rightarrow> bool" where
  "isDot c = (c \<noteq> CHR 0x0A)"

definition oneOf :: "string \<Rightarrow> char \<Rightarrow> bool" where
  "oneOf s c = (c \<in> set s)"

definition dotStar :: "bytes \<Rightarrow> bool" where
  "dotStar s = list_all isDot s"

text \<open>A capture group of fixed width is a list of character classes; \<open>matchClasses\<close>
  consumes one group from the front of the input, \<open>matchGroups\<close> a sequence of groups.
  Both return what they captured and the rest of the input.\<close>

fun matchClasses :: "(char \<Rightarrow> bool) list \<Rightarrow> bytes \<Rightarrow> (bytes \<times> bytes) option" where
  "matchClasses [] s = Some ([], s)"
| "matchClasses (p # ps) [] = None"
| "matchClasses (p # ps) (c # cs) =
     (if p c then (case matchClasses ps cs of None \<Rightarrow> None | Some (g, r) \<Rightarrow> Some (c # g, r))
      else None)"

fun matchGroups :: "(char \<Rightarrow> bool) list list \<Rightarrow> bytes \<Rightarrow> (bytes list \<times> bytes) option" where
  "matchGroups [] s = Some ([], s)"
| "matchGroups (g # gs) s =
     (case matchClasses g s of None \<Rightarrow> None
      | Some (m, r) \<Rightarrow>
          (case matchGroups gs r of None \<Rightarrow> None | Some (ms, r') \<Rightarrow> Some (m # ms, r')))"

text \<open>An uncaptured prefix followed by capture groups.\<close>

definition prefixed :: "(char \<Rightarrow> bool) list \<Rightarrow> (char \<Rightarrow> bool) list list \<Rightarrow> bytes \<Rightarrow> (bytes list \<times> bytes) option" where
  "prefixed pre gs line =
     (case matchClasses pre line of None \<Rightarrow> None | Some (_, r) \<Rightarrow> matchGroups gs r)"

definition lit :: "string \<Rightarrow> (char \<Rightarrow> bool) list" where
  "lit s = map (\<lambda>c x. x = c) s"

definition digits :: "nat \<Rightarrow> (char \<Rightarrow> bool) list" where
  "digits n = replicate n isDigit"

definition uppers :: "nat \<Rightarrow> (char \<Rightarrow> bool) list" where
  "uppers n = replicate n isUpper"

subsection \<open>Runs of the code\<close>

datatype 'a exec = Return 'a | Panic | Diverge

definition andThen :: "'a exec \<Rightarrow> ('a \<Rightarrow> 'b exec) \<Rightarrow> 'b exec" where
  "andThen m f = (case m of Return x \<Rightarrow> f x | Panic \<Rightarrow> Panic | Diverge \<Rightarrow> Diverge)"

text \<open>The slice expression \<^verbatim>\<open>s[lo:hi]\<close>; \<open>None\<close> is the run-time panic.\<close>

definition slice :: "bytes \<Rightarrow> int \<Rightarrow> int \<Rightarrow> bytes option" where
  "slice s lo hi =
     (if 0 \<le> lo \<and> lo \<le> hi \<and> hi \<le> int (length s)
      then Some (take (nat (hi - lo)) (drop (nat lo) s)) else None)"

subsection \<open>Machine integers, atoi and intPow\<close>

text \<open>Two's complement on 64 bits: \<open>2 ^ 63 = 9223372036854775808\<close>.\<close>

definition wrap64 :: "int \<Rightarrow> int" where
  "wrap64 x = (x + 9223372036854775808) mod 18446744073709551616 - 9223372036854775808"

subsection \<open>Errors\<close>

record RecordAddition =
  TLC :: string
  StartColumn :: int
  FinishColumn :: int

datatype error =
    ErrNoDate
  | AtoiSyntaxError string
  | InvalidAdditionError RecordAddition string
  | InvalidRecordError char
  | MissingAdditionError RecordAddition
  | UnknownRecordTypeError char
  | InvalidCharError char

text \<open>The loop of \<^verbatim>\<open>atoi\<close> over the digits; \<open>None\<close> is the early return with a
  syntax error.\<close>

fun atoiDigits :: "int \<Rightarrow> bytes \<Rightarrow> int option" where
  "atoiDigits result [] = Some result"
| "atoiDigits result (b # bs) =
     (if byte b < 48 \<or> 57 < byte b then None
      else atoiDigits (wrap64 (10 * result + int (byte b) - 48)) bs)"

definition atoi :: "bytes \<Rightarrow> int \<times> error option" where
  "atoi data =
     (let (sign, ds) = (case data of c # cs \<Rightarrow> if c = CHR ''-'' then (- 1, cs) else (1, data)
                                     | [] \<Rightarrow> (1, data))
      in if ds = [] then (0, Some (AtoiSyntaxError data))
         else (case atoiDigits 0 ds of
                 None \<Rightarrow> (0, Some (AtoiSyntaxError data))
               | Some result \<Rightarrow> (wrap64 (result * sign), None)))"

text \<open>\<^verbatim>\<open>intPow\<close>: the loop runs while \<open>y \<noteq> 0\<close> and halves \<open>y\<close> with an arithmetic shift,
  so it never ends on a negative \<open>y\<close>; not returning is \<open>None\<close>.\<close>

partial_function (option) intPowLoop :: "int \<Rightarrow> int \<Rightarrow> int \<Rightarrow> int option" where
  "intPowLoop result x y =
     (if y \<noteq> 0
      then intPowLoop (if y mod 2 = 1 then wrap64 (result * x) else result) (wrap64 (x * x)) (y div 2)
      else Some result)"

declare intPowLoop.simps [code]

definition intPow :: "int \<Rightarrow> int \<Rightarrow> int exec" where
  "intPow x y = (case intPowLoop 1 x y of None \<Rightarrow> Diverge | Some r \<Rightarrow> Return r)"

subsection \<open>Addition decoding\<close>

definition bytesValue :: "RecordAddition \<Rightarrow> bytes \<Rightarrow> error list \<Rightarrow> (bytes \<times> error list \<times> bool) exec" where
  "bytesValue a line errs =
     (if int (length line) < FinishColumn a
      then Return ([], errs @ [MissingAdditionError a], False)
      else (case slice line (StartColumn a - 1) (FinishColumn a) of
              None \<Rightarrow> Panic
            | Some d \<Rightarrow> Return (d, errs, True)))"

definition intValue :: "RecordAddition \<Rightarrow> bytes \<Rightarrow> error list \<Rightarrow> (int \<times> error list \<times> bool) exec" where
  "intValue a line errs =
     andThen (bytesValue a line errs) (\<lambda>(d, errs', ok).
       if \<not> ok then Return (0, errs', False)
       else (case atoi d of
               (_, Some err) \<Rightarrow> Return (0, errs' @ [err], False)
             | (result, None) \<Rightarrow> Return (result, errs', True)))"

subsection \<open>Addition declarations (I, J and M records)\<close>

text \<open>\<^verbatim>\<open>ijmRecordRx = \\A[IJM](\\d{2})((?:\\d{4}[A-Z]{3})*)\\z\<close>. A match is the list of
  submatches, the whole line first, as \<^verbatim>\<open>FindSubmatch\<close> returns it.\<close>

fun tripleStar :: "bytes \<Rightarrow> bool" where
  "tripleStar [] = True"
| "tripleStar (a # b # c # d # e # f # g # r) =
     (isDigit a \<and> isDigit b \<and> isDigit c \<and> isDigit d \<and> isUpper e \<and> isUpper f \<and> isUpper g
      \<and> tripleStar r)"
| "tripleStar _ = False"

definition ijmRecordRx :: "bytes \<Rightarrow> bytes list option" where
  "ijmRecordRx line =
     (case prefixed [oneOf ''IJM''] [digits 2] line of
        None \<Rightarrow> None
      | Some (ms, r) \<Rightarrow> if tripleStar r then Some (line # ms @ [r]) else None)"

text \<open>\<^verbatim>\<open>s[lo:hi]\<close> where the source has established \<open>hi \<le> len(s)\<close>: in
  \<^verbatim>\<open>parseRecordAdditions\<close> the check \<^verbatim>\<open>len(m[2]) != 7*n\<close> comes first, in
  \<^verbatim>\<open>parseFRecord\<close> \<open>n\<close> is half the length.\<close>

definition sub :: "bytes \<Rightarrow> nat \<Rightarrow> nat \<Rightarrow> bytes" where
  "sub s lo hi = take (hi - lo) (drop lo s)"

text \<open>One turn of the loop of \<^verbatim>\<open>parseRecordAdditions\<close>, on the accepted additions, the
  errors and the expected start column.\<close>

definition additionStep :: "bytes \<Rightarrow> nat \<Rightarrow> RecordAddition list \<times> error list \<times> int
    \<Rightarrow> RecordAddition list \<times> error list \<times> int" where
  "additionStep m2 i = (\<lambda>(additions, errs, startColumn).
     let addition = \<lparr>TLC = sub m2 (7 * i + 4) (7 * i + 7),
                      StartColumn = fst (atoi (sub m2 (7 * i) (7 * i + 2))),
                      FinishColumn = fst (atoi (sub m2 (7 * i + 2) (7 * i + 4)))\<rparr>;
         message = (if StartColumn addition \<noteq> startColumn then ''invalid start column''
                    else if FinishColumn addition < StartColumn addition then ''invalid finish column''
                    else [])
     in if message = [] then (additions @ [addition], errs, FinishColumn addition + 1)
        else (additions, errs @ [InvalidAdditionError addition message], startColumn))"

definition parseRecordAdditions :: "bytes \<Rightarrow> int \<Rightarrow> (RecordAddition list \<times> error list) exec" where
  "parseRecordAdditions line startColumn =
     (case line of
        [] \<Rightarrow> Panic
      | c # _ \<Rightarrow>
          (case ijmRecordRx line of
             None \<Rightarrow> Return ([], [InvalidRecordError c])
           | Some m \<Rightarrow>
               let n = fst (atoi (m ! 1)) in
               if int (length (m ! 2)) \<noteq> 7 * n then Return ([], [InvalidRecordError c])
               else (case fold (additionStep (m ! 2)) [0..<nat n] ([], [], startColumn) of
                       (additions, errs, _) \<Rightarrow> Return (additions, errs))))"

subsection \<open>Time\<close>

text \<open>The standard library's \<^verbatim>\<open>time.Date(year, month, day, hour, min, sec, nsec, time.UTC)\<close>:
  the month is normalised into the year, and days, hours, minutes and seconds outside
  their usual ranges simply carry over. The value is in nanoseconds since the zero time.\<close>

definition isLeap :: "int \<Rightarrow> bool" where
  "isLeap y = (y mod 4 = 0 \<and> (y mod 100 \<noteq> 0 \<or> y mod 400 = 0))"

definition daysBefore :: "int \<Rightarrow> int" where
  "daysBefore m = [0, 31, 59, 90, 120, 151, 181, 212, 243, 273, 304, 334] ! nat m"

definition daysSinceEpoch :: "int \<Rightarrow> int" where
  "daysSinceEpoch y = 365 * (y - 1) + (y - 1) div 4 - (y - 1) div 100 + (y - 1) div 400"

definition time_Date :: "int \<Rightarrow> int \<Rightarrow> int \<Rightarrow> int \<Rightarrow> int \<Rightarrow> int \<Rightarrow> int \<Rightarrow> int" where
  "time_Date year month day hour minute sec nsec =
     (let m0 = month - 1;
          y = year + m0 div 12;
          m = m0 mod 12;
          d = daysSinceEpoch y + daysBefore m + (if isLeap y \<and> 2 \<le> m then 1 else 0) + day - 1
      in (d * 86400 + hour * 3600 + minute * 60 + sec) * 1000000000 + nsec)"

definition makeYear :: "int \<Rightarrow> int" where
  "makeYear twoDigitYear = (if twoDigitYear \<ge> 93 then 1900 + twoDigitYear else 2000 + twoDigitYear)"

text \<open>\<^verbatim>\<open>AddDate(0, 0, 1)\<close> on a UTC time adds 24 hours.\<close>

definition oneDay :: int where
  "oneDay = 86400000000000"

subsection \<open>Records and the document\<close>

text \<open>A \<^verbatim>\<open>float64\<close>: a finite value (held as the real number that the Go expression
  computes before rounding), an infinity, or a NaN. The parser reaches the last three only
  by dividing by a zero minute denominator.\<close>

datatype float64 = Finite real | PlusInf | MinusInf | NaN

text \<open>The records, fields in the order given. A \<^verbatim>\<open>map[string]int\<close> that is
  \<^verbatim>\<open>nil\<close> is the empty map.\<close>

datatype HRecord = HRecord char string string string
  \<comment> \<open>Source, TLC, LongName, Value\<close>

datatype Record =
    ARecord string string string
      \<comment> \<open>ManufacturerID, UniqueFlightRecorderID, AdditionalData\<close>
  | BRecord int float64 float64 char float64 float64 "string \<rightharpoonup> int"
      \<comment> \<open>Time, Lat, Lon, Validity, AltWGS84, AltBarometric, Additions\<close>
  | CRecordDeclaration int int int int int int string
      \<comment> \<open>DeclarationTime, FlightDay, FlightMonth, FlightYear, TaskNumber, NumberOfTurnpoints, Text\<close>
  | CRecordWaypoint float64 float64 string
      \<comment> \<open>Lat, Lon, Text\<close>
  | DRecord char int
      \<comment> \<open>GPSQualifier, DGPSStationID\<close>
  | ERecord int string string
      \<comment> \<open>Time, TLC, Text\<close>
  | ERecordWithoutTLC int string
      \<comment> \<open>Time, Text\<close>
  | FRecord int "int list"
      \<comment> \<open>Time, SatelliteIDs\<close>
  | GRecord string
  | HRecordPtr HRecord
  | HRecordWithInvalidSource string string string string
      \<comment> \<open>Source, TLC, LongName, Value\<close>
  | HFDTERecord HRecord int int
      \<comment> \<open>the embedded HRecord, Date, FlightNumber\<close>
  | IRecord "RecordAddition list"
  | JRecord "RecordAddition list"
  | KRecord int "string \<rightharpoonup> int"
      \<comment> \<open>Time, Additions\<close>
  | LRecord string string
      \<comment> \<open>Input, Text\<close>
  | LRecordWithoutTLC string
  | MRecord "RecordAddition list"
  | NRecord int "string \<rightharpoonup> int"
      \<comment> \<open>Time, Additions\<close>

text \<open>\<^verbatim>\<open>Valid()\<close> on a pointer that is not nil: false for the three fallback records,
  \<^verbatim>\<open>r != nil\<close> for the others (\<^verbatim>\<open>HFDTERecord\<close> through its embedded \<^verbatim>\<open>HRecord\<close>).\<close>

fun Valid :: "Record \<Rightarrow> bool" where
  "Valid (ERecordWithoutTLC _ _) = False"
| "Valid (HRecordWithInvalidSource _ _ _ _) = False"
| "Valid (LRecordWithoutTLC _) = False"
| "Valid _ = True"

text \<open>A value of the interface type \<^verbatim>\<open>Record\<close>: the nil interface, a nil pointer of a
  record type (what \<^verbatim>\<open>record, err = p.parseARecord(line)\<close> stores when the function
  returns a nil \<^verbatim>\<open>*ARecord\<close>; the letter names the type), or a pointer to a record.\<close>

datatype Slot = NilInterface | NilPointer char | Pointer Record

definition ptr :: "char \<Rightarrow> Record option \<Rightarrow> Slot" where
  "ptr t r = (case r of None \<Rightarrow> NilPointer t | Some x \<Rightarrow> Pointer x)"

record IGC =
  Records :: "Slot list"
  Errs :: "(int \<times> error list) list"
  HRecordsByTLC :: "string \<rightharpoonup> HRecord"
  BRecords :: "Record list"
  KRecords :: "Record list"

subsection \<open>The parser state\<close>

record parser =
  allowInvalidChars :: bool
  date :: int
  prevTime :: int
  cRecords :: "Record list"
  bRecordAdditions :: "RecordAddition list"
  bRecordsAdditionsByTLC :: "string \<rightharpoonup> RecordAddition"
  ladBRecordAddition :: "RecordAddition option"
  latMinMul :: int
  latMinDiv :: real
  lodBRecordAddition :: "RecordAddition option"
  lonMinMul :: int
  lonMinDiv :: real
  tdsBRecordAddition :: "RecordAddition option"
  fracSecondMul :: int
  kRecordAdditions :: "RecordAddition list"
  nRecordAdditions :: "RecordAddition list"

definition newParser :: "bool \<Rightarrow> parser" where
  "newParser allow =
     \<lparr>allowInvalidChars = allow, date = 0, prevTime = 0, cRecords = [],
      bRecordAdditions = [], bRecordsAdditionsByTLC = Map.empty,
      ladBRecordAddition = None, latMinMul = 1, latMinDiv = 60000,
      lodBRecordAddition = None, lonMinMul = 1, lonMinDiv = 60000,
      tdsBRecordAddition = None, fracSecondMul = 1000000000,
      kRecordAdditions = [], nRecordAdditions = []\<rparr>"

subsection \<open>Timestamp reconstruction\<close>

text \<open>The loop of \<^verbatim>\<open>parseTime\<close>, on the current date, the duration since midnight and
  the previous time; it returns the accepted time and the date it was found on.\<close>

function rollover :: "int \<Rightarrow> int \<Rightarrow> int \<Rightarrow> int \<times> int" where
  "rollover d dur prev =
     (let t = d + dur in if \<not> t < prev then (t, d) else rollover (d + oneDay) dur prev)"
  by pat_completeness auto
termination
  by (relation "measure (\<lambda>(d, dur, prev). nat (prev - (d + dur)))") (auto simp: oneDay_def)

declare rollover.simps [simp del]

definition parseTime :: "parser \<Rightarrow> bytes \<Rightarrow> bytes \<Rightarrow> bytes \<Rightarrow> int \<Rightarrow> error list
    \<Rightarrow> (int \<times> error list) \<times> parser" where
  "parseTime p hourData minuteData secondData nanosecond errs =
     (if date p = 0 then ((0, errs @ [ErrNoDate]), p)
      else
        let hour = fst (atoi hourData);
            minute = fst (atoi minuteData);
            second = fst (atoi secondData);
            durationSinceMidnight =
              wrap64 (hour * 3600000000000 + minute * 60000000000 + second * 1000000000 + nanosecond)
        in (case rollover (date p) durationSinceMidnight (prevTime p) of
              (t, d) \<Rightarrow> ((t, errs), p\<lparr>date := d, prevTime := t\<rparr>)))"

subsection \<open>The regular expressions of the record grammars\<close>

text \<open>\<open>withRest pre gs\<close> is \<^verbatim>\<open>\A pre gs (.*)\z\<close> and \<open>exact pre gs\<close> is
  \<^verbatim>\<open>\A pre gs \z\<close>, for an uncaptured prefix and capture groups of fixed width.\<close>

definition withRest :: "(char \<Rightarrow> bool) list \<Rightarrow> (char \<Rightarrow> bool) list list \<Rightarrow> bytes \<Rightarrow> bytes list option" where
  "withRest pre gs line =
     (case prefixed pre gs line of
        None \<Rightarrow> None
      | Some (ms, r) \<Rightarrow> if dotStar r then Some (line # ms @ [r]) else None)"

definition exact :: "(char \<Rightarrow> bool) list \<Rightarrow> (char \<Rightarrow> bool) list list \<Rightarrow> bytes \<Rightarrow> bytes list option" where
  "exact pre gs line =
     (case prefixed pre gs line of
        None \<Rightarrow> None
      | Some (ms, r) \<Rightarrow> if r = [] then Some (line # ms) else None)"

definition aRecordRx :: "bytes \<Rightarrow> bytes list option" where
  "aRecordRx = withRest (lit ''A'') [uppers 3]"

definition bRecordRx :: "bytes \<Rightarrow> bytes list option" where
  "bRecordRx = withRest (lit ''B'')
     [digits 2, digits 2, digits 2, digits 2, digits 5, [oneOf ''NS''], digits 3, digits 5,
      [oneOf ''EW''], [oneOf ''AV''], isDigitOrMinus # digits 4, isDigitOrMinus # digits 4]"

definition cRecordDeclarationRx :: "bytes \<Rightarrow> bytes list option" where
  "cRecordDeclarationRx = withRest (lit ''C'')
     [digits 2, digits 2, digits 2, digits 2, digits 2, digits 2, digits 2, digits 2, digits 2,
      digits 4, [isDigitOrMinus, isDigit]]"

definition cRecordWaypointRx :: "bytes \<Rightarrow> bytes list option" where
  "cRecordWaypointRx = withRest (lit ''C'')
     [digits 2, digits 5, [oneOf ''NS''], digits 3, digits 5, [oneOf ''EW'']]"

definition dRecordRx :: "bytes \<Rightarrow> bytes list option" where
  "dRecordRx = exact (lit ''D'') [[oneOf ''12''], digits 4]"

definition eRecordRx :: "bytes \<Rightarrow> bytes list option" where
  "eRecordRx = withRest (lit ''E'') [digits 2, digits 2, digits 2, uppers 3]"

definition eRecordWithoutTLCRx :: "bytes \<Rightarrow> bytes list option" where
  "eRecordWithoutTLCRx = withRest (lit ''E'') [digits 2, digits 2, digits 2]"

text \<open>\<^verbatim>\<open>\AF(\d{2})(\d{2})(\d{2})((?:\d{2})*)\z\<close>\<close>

definition fRecordRx :: "bytes \<Rightarrow> bytes list option" where
  "fRecordRx line =
     (case prefixed (lit ''F'') [digits 2, digits 2, digits 2] line of
        None \<Rightarrow> None
      | Some (ms, r) \<Rightarrow>
          if list_all isDigit r \<and> even (length r) then Some (line # ms @ [r]) else None)"

text \<open>\<^verbatim>\<open>\AH([FOP])([0-9A-Z]{3})(.*?)(?::(.*))?\z\<close>: the lazy third group ends at the first
  colon, the fourth is what follows it (empty when there is no colon).\<close>

definition hRx :: "(char \<Rightarrow> bool) \<Rightarrow> bytes \<Rightarrow> bytes list option" where
  "hRx source line =
     (case prefixed (lit ''H'') [[source], replicate 3 isDigitOrUpper] line of
        None \<Rightarrow> None
      | Some (ms, r) \<Rightarrow>
          if dotStar r
          then Some (line # ms @ [takeWhile (\<lambda>c. c \<noteq> CHR '':'') r,
                                  drop 1 (dropWhile (\<lambda>c. c \<noteq> CHR '':'') r)])
          else None)"

definition hRecordRx :: "bytes \<Rightarrow> bytes list option" where
  "hRecordRx = hRx (oneOf ''FOP'')"

definition hRecordWithInvalidSourceRx :: "bytes \<Rightarrow> bytes list option" where
  "hRecordWithInvalidSourceRx = hRx isUpper"

definition hfdteRecordRx :: "bytes \<Rightarrow> bytes list option" where
  "hfdteRecordRx = exact (lit ''HFDTE'') [digits 2, digits 2, digits 2]"

text \<open>\<^verbatim>\<open>(\d{2})(\d{2})(\d{2})(?:,(\d{2}))?\z\<close> is anchored at the end only: it matches the
  last nine characters (with the flight number) or else the last six.\<close>

definition hfdteRecordValueRx :: "bytes \<Rightarrow> bytes list option" where
  "hfdteRecordValueRx v =
     (let n = length v;
          long = drop (n - 9) v;
          short = drop (n - 6) v
      in case (if 9 \<le> n then exact [] [digits 2, digits 2, digits 2, lit '','', digits 2] long else None) of
           Some m \<Rightarrow> Some [m ! 0, m ! 1, m ! 2, m ! 3, m ! 5]
         | None \<Rightarrow>
             (case (if 6 \<le> n then exact [] [digits 2, digits 2, digits 2] short else None) of
                Some m \<Rightarrow> Some (m @ [[]])
              | None \<Rightarrow> None))"

text \<open>\<^verbatim>\<open>\AHFFXA(\d+)\z\<close>\<close>

definition hffxaRecordRx :: "bytes \<Rightarrow> bytes list option" where
  "hffxaRecordRx line =
     (case prefixed (lit ''HFFXA'') [] line of
        None \<Rightarrow> None
      | Some (_, r) \<Rightarrow> if r \<noteq> [] \<and> list_all isDigit r then Some [line, r] else None)"

definition gRecordRx :: "bytes \<Rightarrow> bytes list option" where
  "gRecordRx = withRest (lit ''G'') []"

definition knRecordRx :: "bytes \<Rightarrow> bytes list option" where
  "knRecordRx = withRest [oneOf ''KN''] [digits 2, digits 2, digits 2]"

definition lRecordRx :: "bytes \<Rightarrow> bytes list option" where
  "lRecordRx = withRest (lit ''L'') [uppers 3]"

definition lRecordWithoutTLCRx :: "bytes \<Rightarrow> bytes list option" where
  "lRecordWithoutTLCRx = withRest (lit ''L'') []"

text \<open>\<^verbatim>\<open>invalidCharsRx\<close> is a negated class: it finds the first character outside the
  allowed ones.\<close>

definition allowedChar :: "char \<Rightarrow> bool" where
  "allowedChar c =
     (let b = byte c
      in b = 0x20 \<or> (0x22 \<le> b \<and> b \<le> 0x23) \<or> (0x25 \<le> b \<and> b \<le> 0x29) \<or> (0x2b \<le> b \<and> b \<le> 0x5b)
         \<or> b = 0x5d \<or> (0x5f \<le> b \<and> b \<le> 0x7d))"

definition invalidCharsRx :: "bytes \<Rightarrow> char option" where
  "invalidCharsRx lineStr = find (\<lambda>c. \<not> allowedChar c) lineStr"

subsection \<open>The record grammars\<close>

definition ApprovedManufacturersByTLC :: "string list" where
  "ApprovedManufacturersByTLC =
     [''ACT'', ''AVX'', ''CAM'', ''CNI'', ''DSX'', ''EWA'', ''FIL'', ''FLA'', ''FLY'', ''GCS'',
      ''IMI'', ''LGS'', ''LXN'', ''LXV'', ''NAV'', ''NTE'', ''NKL'', ''PES'', ''PFE'', ''PRT'',
      ''RCE'', ''SCH'', ''SDI'', ''TRI'', ''ZAN'']"

text \<open>\<^verbatim>\<open>bytes.Cut\<close> at the first separator.\<close>

definition cut :: "bytes \<Rightarrow> char \<Rightarrow> bytes \<times> bytes" where
  "cut s sep =
     (if sep \<in> set s then (takeWhile (\<lambda>c. c \<noteq> sep) s, drop 1 (dropWhile (\<lambda>c. c \<noteq> sep) s))
      else (s, []))"

definition parseARecord :: "bytes \<Rightarrow> Record option \<times> error list" where
  "parseARecord line =
     (case aRecordRx line of
        None \<Rightarrow> (None, [InvalidRecordError CHR ''A''])
      | Some m \<Rightarrow>
          if m ! 1 \<in> set ApprovedManufacturersByTLC
          then (case cut (m ! 2) CHR ''-'' of
                  (uniqueFlightRecorderID, additionalData) \<Rightarrow>
                    (Some (ARecord (m ! 1) uniqueFlightRecorderID additionalData), []))
          else (Some (ARecord (m ! 1) (m ! 2) []), []))"

text \<open>The loop \<^verbatim>\<open>for _, addition := range additions\<close> of the B, K and N grammars, on the
  map being filled and the errors.\<close>

fun additionsLoop :: "RecordAddition list \<Rightarrow> bytes \<Rightarrow> (string \<rightharpoonup> int) \<Rightarrow> error list
    \<Rightarrow> ((string \<rightharpoonup> int) \<times> error list) exec" where
  "additionsLoop [] line additions errs = Return (additions, errs)"
| "additionsLoop (addition # rest) line additions errs =
     andThen (intValue addition line errs) (\<lambda>(v, errs', ok).
       additionsLoop rest line (if ok then additions(TLC addition \<mapsto> v) else additions) errs')"

text \<open>\<^verbatim>\<open>float64(deg) + float64(min)/div\<close>, negated in the southern or western half.
  The denominator is the conversion of an integer, so it is finite and, when zero, the
  positive zero: the quotient is then an infinity with the sign of the minutes, or a NaN
  when the minutes are zero too.\<close>

definition coordinate :: "int \<Rightarrow> int \<Rightarrow> real \<Rightarrow> bool \<Rightarrow> float64" where
  "coordinate deg minutes d neg =
     (if d = 0
      then (if minutes = 0 then NaN
            else if (0 < minutes) \<noteq> neg then PlusInf else MinusInf)
      else (let v = real_of_int deg + real_of_int minutes / d
            in Finite (if neg then - v else v)))"

text \<open>The blocks \<^verbatim>\<open>if p.xBRecordAddition != nil { v, errs, ok = ...intValue(line, errs);
  if ok { ... } }\<close> of \<^verbatim>\<open>parseBRecord\<close>: the value kept is \<open>f v\<close> when the addition
  decodes and \<open>dflt\<close> otherwise.\<close>

definition withAddition :: "RecordAddition option \<Rightarrow> bytes \<Rightarrow> error list \<Rightarrow> int \<Rightarrow> (int \<Rightarrow> int)
    \<Rightarrow> (int \<times> error list) exec" where
  "withAddition a line errs dflt f =
     (case a of
        None \<Rightarrow> Return (dflt, errs)
      | Some addition \<Rightarrow>
          andThen (intValue addition line errs) (\<lambda>(v, errs', ok).
            Return (if ok then f v else dflt, errs')))"

definition parseBRecord :: "parser \<Rightarrow> bytes \<Rightarrow> ((Record option \<times> error list) \<times> parser) exec" where
  "parseBRecord p line =
     (case bRecordRx line of
        None \<Rightarrow> Return ((None, [InvalidRecordError CHR ''B'']), p)
      | Some m \<Rightarrow>
          andThen (withAddition (tdsBRecordAddition p) line [] 0
                     (\<lambda>fractionalSecond. wrap64 (fracSecondMul p * fractionalSecond)))
          (\<lambda>(nanosecond, errs1).
            case parseTime p (m ! 1) (m ! 2) (m ! 3) nanosecond errs1 of
              ((t, errs2), p') \<Rightarrow>
                andThen (withAddition (ladBRecordAddition p') line errs2 (fst (atoi (m ! 5)))
                           (\<lambda>lad. wrap64 (latMinMul p' * fst (atoi (m ! 5)) + lad)))
                (\<lambda>(latMin, errs3).
                  andThen (withAddition (lodBRecordAddition p') line errs3 (fst (atoi (m ! 8)))
                             (\<lambda>lod. wrap64 (lonMinMul p' * fst (atoi (m ! 8)) + lod)))
                  (\<lambda>(lonMin, errs4).
                    andThen (if bRecordAdditions p' \<noteq> []
                             then additionsLoop (bRecordAdditions p') line Map.empty errs4
                             else Return (Map.empty, errs4))
                    (\<lambda>(additions, errs5).
                      Return ((Some (BRecord t
                                 (coordinate (fst (atoi (m ! 4))) latMin (latMinDiv p') (m ! 6 = ''S''))
                                 (coordinate (fst (atoi (m ! 7))) lonMin (lonMinDiv p') (m ! 9 = ''W''))
                                 (hd (m ! 10))
                                 (Finite (real_of_int (fst (atoi (m ! 12)))))
                                 (Finite (real_of_int (fst (atoi (m ! 11)))))
                                 additions), errs5), p'))))))"

definition parseCRecordDeclaration :: "bytes \<Rightarrow> Record option \<times> error list" where
  "parseCRecordDeclaration line =
     (case cRecordDeclarationRx line of
        None \<Rightarrow> (None, [InvalidRecordError CHR ''C''])
      | Some m \<Rightarrow>
          (Some (CRecordDeclaration
                   (time_Date (makeYear (fst (atoi (m ! 3)))) (fst (atoi (m ! 2))) (fst (atoi (m ! 1)))
                      (fst (atoi (m ! 4))) (fst (atoi (m ! 5))) (fst (atoi (m ! 6))) 0)
                   (fst (atoi (m ! 7))) (fst (atoi (m ! 8))) (fst (atoi (m ! 9)))
                   (fst (atoi (m ! 10))) (fst (atoi (m ! 11))) (m ! 12)), []))"

text \<open>The second half of \<^verbatim>\<open>parseCRecord\<close>, the waypoint shape.\<close>

definition parseCRecordWaypoint :: "bytes \<Rightarrow> Slot \<times> error list" where
  "parseCRecordWaypoint line =
     (case cRecordWaypointRx line of
        None \<Rightarrow> (NilInterface, [InvalidRecordError CHR ''C''])
      | Some m \<Rightarrow>
          (Pointer (CRecordWaypoint
                      (coordinate (fst (atoi (m ! 1))) (fst (atoi (m ! 2))) 60000 (m ! 3 = ''S''))
                      (coordinate (fst (atoi (m ! 4))) (fst (atoi (m ! 5))) 60000 (m ! 6 = ''W''))
                      (m ! 7)), []))"

definition parseCRecord :: "parser \<Rightarrow> bytes \<Rightarrow> Slot \<times> error list" where
  "parseCRecord p line =
     (if length (cRecords p) = 0
      then (case parseCRecordDeclaration line of
              (cRecordDeclaration, []) \<Rightarrow> (ptr CHR ''C'' cRecordDeclaration, [])
            | _ \<Rightarrow> parseCRecordWaypoint line)
      else parseCRecordWaypoint line)"

definition parseDRecord :: "bytes \<Rightarrow> Record option \<times> error list" where
  "parseDRecord line =
     (case dRecordRx line of
        None \<Rightarrow> (None, [InvalidRecordError CHR ''D''])
      | Some m \<Rightarrow> (Some (DRecord (hd (m ! 1)) (fst (atoi (m ! 2)))), []))"

definition parseERecord :: "parser \<Rightarrow> bytes \<Rightarrow> (Slot \<times> error list) \<times> parser" where
  "parseERecord p line =
     (case eRecordRx line of
        None \<Rightarrow>
          (case eRecordWithoutTLCRx line of
             Some m \<Rightarrow>
               (case parseTime p (m ! 1) (m ! 2) (m ! 3) 0 [] of
                  ((t, errs), p') \<Rightarrow> ((Pointer (ERecordWithoutTLC t (m ! 4)), errs), p'))
           | None \<Rightarrow> ((NilInterface, [InvalidRecordError CHR ''E'']), p))
      | Some m \<Rightarrow>
          (case parseTime p (m ! 1) (m ! 2) (m ! 3) 0 [] of
             ((t, errs), p') \<Rightarrow> ((Pointer (ERecord t (m ! 4) (m ! 5)), errs), p')))"

definition parseFRecord :: "parser \<Rightarrow> bytes \<Rightarrow> (Record option \<times> error list) \<times> parser" where
  "parseFRecord p line =
     (case fRecordRx line of
        None \<Rightarrow> ((None, [InvalidRecordError CHR ''F'']), p)
      | Some m \<Rightarrow>
          (case parseTime p (m ! 1) (m ! 2) (m ! 3) 0 [] of
             ((t, errs), p') \<Rightarrow>
               let n = length (m ! 4) div 2;
                   satelliteIDs = map (\<lambda>i. fst (atoi (sub (m ! 4) (2 * i) (2 * i + 2)))) [0..<n]
               in ((Some (FRecord t satelliteIDs), errs), p')))"

definition parseGRecord :: "bytes \<Rightarrow> Record option \<times> error list" where
  "parseGRecord line =
     (case gRecordRx line of
        None \<Rightarrow> (None, [InvalidRecordError CHR ''G''])
      | Some m \<Rightarrow> (Some (GRecord (m ! 1)), []))"

definition hfdteDate :: "bytes list \<Rightarrow> int" where
  "hfdteDate m =
     time_Date (makeYear (fst (atoi (m ! 3)))) (fst (atoi (m ! 2))) (fst (atoi (m ! 1))) 0 0 0 0"

definition parseHRecord :: "bytes \<Rightarrow> Slot \<times> error list" where
  "parseHRecord line =
     (case hfdteRecordRx line of
        Some m \<Rightarrow>
          (Pointer (HFDTERecord (HRecord CHR ''F'' ''DTE'' [] (concat (tl m))) (hfdteDate m) 0), [])
      | None \<Rightarrow>
     (case hffxaRecordRx line of
        Some m \<Rightarrow> (Pointer (HRecordPtr (HRecord CHR ''F'' ''FXA'' [] (m ! 1))), [])
      | None \<Rightarrow>
     (case hRecordRx line of
        None \<Rightarrow>
          (case hRecordWithInvalidSourceRx line of
             Some m \<Rightarrow>
               (Pointer (HRecordWithInvalidSource [hd (m ! 1)] (m ! 2) (m ! 3) (m ! 4)), [])
           | None \<Rightarrow> (NilInterface, [InvalidRecordError CHR ''H'']))
      | Some m \<Rightarrow>
          let hRecord = HRecord (hd (m ! 1)) (m ! 2) (m ! 3) (m ! 4) in
          if m ! 2 = ''DTE''
          then (case hfdteRecordValueRx (m ! 4) of
                  None \<Rightarrow> (Pointer (HRecordPtr hRecord), [InvalidRecordError CHR ''H''])
                | Some v \<Rightarrow>
                    (Pointer (HFDTERecord hRecord (hfdteDate v)
                                (if length (v ! 4) \<noteq> 0 then fst (atoi (v ! 4)) else 0)), []))
          else (Pointer (HRecordPtr hRecord), []))))"

definition parseIRecord :: "bytes \<Rightarrow> (Record option \<times> error list) exec" where
  "parseIRecord line =
     andThen (parseRecordAdditions line 36) (\<lambda>(additions, err).
       if err \<noteq> [] then Return (None, err) else Return (Some (IRecord additions), []))"

definition parseJRecord :: "bytes \<Rightarrow> (Record option \<times> error list) exec" where
  "parseJRecord line =
     andThen (parseRecordAdditions line 8) (\<lambda>(additions, err).
       if err \<noteq> [] then Return (None, err) else Return (Some (JRecord additions), []))"

definition parseMRecord :: "bytes \<Rightarrow> (Record option \<times> error list) exec" where
  "parseMRecord line =
     andThen (parseRecordAdditions line 8) (\<lambda>(additions, err).
       if err \<noteq> [] then Return (None, err) else Return (Some (MRecord additions), []))"

definition parseKRecord :: "parser \<Rightarrow> bytes \<Rightarrow> ((Record option \<times> error list) \<times> parser) exec" where
  "parseKRecord p line =
     (case knRecordRx line of
        None \<Rightarrow> Return ((None, [InvalidRecordError CHR ''K'']), p)
      | Some m \<Rightarrow>
          (case parseTime p (m ! 1) (m ! 2) (m ! 3) 0 [] of
             ((t, errs), p') \<Rightarrow>
               andThen (if kRecordAdditions p' \<noteq> []
                        then additionsLoop (kRecordAdditions p') line Map.empty errs
                        else Return (Map.empty, errs))
               (\<lambda>(additions, errs'). Return ((Some (KRecord t additions), errs'), p'))))"

definition parseLRecord :: "bytes \<Rightarrow> Slot \<times> error list" where
  "parseLRecord line =
     (case lRecordRx line of
        None \<Rightarrow>
          (case lRecordWithoutTLCRx line of
             Some m \<Rightarrow> (Pointer (LRecordWithoutTLC (m ! 1)), [])
           | None \<Rightarrow> (NilInterface, [InvalidRecordError CHR ''L'']))
      | Some m \<Rightarrow> (Pointer (LRecord (m ! 1) (m ! 2)), []))"

definition parseNRecord :: "parser \<Rightarrow> bytes \<Rightarrow> ((Record option \<times> error list) \<times> parser) exec" where
  "parseNRecord p line =
     (case knRecordRx line of
        None \<Rightarrow> Return ((None, [InvalidRecordError CHR ''N'']), p)
      | Some m \<Rightarrow>
          (case parseTime p (m ! 1) (m ! 2) (m ! 3) 0 [] of
             ((t, errs), p') \<Rightarrow>
               andThen (if nRecordAdditions p' \<noteq> []
                        then additionsLoop (nRecordAdditions p') line Map.empty errs
                        else Return (Map.empty, errs))
               (\<lambda>(additions, errs'). Return ((Some (NRecord t additions), errs'), p'))))"

subsection \<open>The dispatcher\<close>

text \<open>The \<^verbatim>\<open>switch line[0]\<close> of \<^verbatim>\<open>parseLines\<close>.\<close>

definition dispatch :: "parser \<Rightarrow> bytes \<Rightarrow> ((Slot \<times> error list) \<times> parser) exec" where
  "dispatch p line =
     (case line of
        [] \<Rightarrow> Panic
      | c # _ \<Rightarrow>
          if c = CHR ''A'' then (case parseARecord line of (r, err) \<Rightarrow> Return ((ptr c r, err), p))
          else if c = CHR ''B'' then
            andThen (parseBRecord p line) (\<lambda>((r, err), p'). Return ((ptr c r, err), p'))
          else if c = CHR ''C'' then Return (parseCRecord p line, p)
          else if c = CHR ''D'' then (case parseDRecord line of (r, err) \<Rightarrow> Return ((ptr c r, err), p))
          else if c = CHR ''E'' then Return (parseERecord p line)
          else if c = CHR ''F'' then
            (case parseFRecord p line of ((r, err), p') \<Rightarrow> Return ((ptr c r, err), p'))
          else if c = CHR ''G'' then (case parseGRecord line of (r, err) \<Rightarrow> Return ((ptr c r, err), p))
          else if c = CHR ''H'' then Return (parseHRecord line, p)
          else if c = CHR ''I'' then
            andThen (parseIRecord line) (\<lambda>(r, err). Return ((ptr c r, err), p))
          else if c = CHR ''J'' then
            andThen (parseJRecord line) (\<lambda>(r, err). Return ((ptr c r, err), p))
          else if c = CHR ''K'' then
            andThen (parseKRecord p line) (\<lambda>((r, err), p'). Return ((ptr c r, err), p'))
          else if c = CHR ''L'' then Return (parseLRecord line, p)
          else if c = CHR ''M'' then
            andThen (parseMRecord line) (\<lambda>(r, err). Return ((ptr c r, err), p))
          else if c = CHR ''N'' then
            andThen (parseNRecord p line) (\<lambda>((r, err), p'). Return ((ptr c r, err), p'))
          else Return ((NilInterface, [UnknownRecordTypeError c]), p))"

text \<open>The case \<^verbatim>\<open>*IRecord\<close> of the type switch: the additions are appended to the
  installed ones and entered in the map by code, then the three special additions are
  looked up in the map and the scale factors recomputed.\<close>

definition installIRecord :: "parser \<Rightarrow> RecordAddition list \<Rightarrow> parser exec" where
  "installIRecord p additions =
     (let p1 = p\<lparr>bRecordAdditions := bRecordAdditions p @ additions,
                 bRecordsAdditionsByTLC :=
                   fold (\<lambda>a m. m(TLC a \<mapsto> a)) additions (bRecordsAdditionsByTLC p)\<rparr>
      in andThen
           (case bRecordsAdditionsByTLC p1 ''LAD'' of
              None \<Rightarrow> Return p1
            | Some a \<Rightarrow>
                let n = FinishColumn a - StartColumn a + 1 in
                andThen (intPow 10 n) (\<lambda>mul. andThen (intPow 10 n) (\<lambda>d.
                  Return (p1\<lparr>ladBRecordAddition := Some a, latMinMul := mul,
                              latMinDiv := real_of_int (wrap64 (60000 * d))\<rparr>))))
           (\<lambda>p2. andThen
              (case bRecordsAdditionsByTLC p2 ''LOD'' of
                 None \<Rightarrow> Return p2
               | Some a \<Rightarrow>
                   let n = FinishColumn a - StartColumn a + 1 in
                   andThen (intPow 10 n) (\<lambda>mul. andThen (intPow 10 n) (\<lambda>d.
                     Return (p2\<lparr>lodBRecordAddition := Some a, lonMinMul := mul,
                                 lonMinDiv := real_of_int (wrap64 (60000 * d))\<rparr>))))
              (\<lambda>p3.
                 case bRecordsAdditionsByTLC p3 ''TDS'' of
                   None \<Rightarrow> Return p3
                 | Some a \<Rightarrow>
                     let n = FinishColumn a - StartColumn a + 1 in
                     andThen (intPow 10 (9 - n)) (\<lambda>mul.
                       Return (p3\<lparr>tdsBRecordAddition := Some a, fracSecondMul := mul\<rparr>)))))"

definition hTLC :: "HRecord \<Rightarrow> string" where
  "hTLC h = (case h of HRecord _ tlc _ _ \<Rightarrow> tlc)"

text \<open>The type switch \<^verbatim>\<open>switch record := record.(type)\<close> at the end of the loop body.\<close>

definition update :: "parser \<Rightarrow> IGC \<Rightarrow> Slot \<Rightarrow> (parser \<times> IGC) exec" where
  "update p doc record =
     (case record of
        Pointer r \<Rightarrow>
          (case r of
             BRecord _ _ _ _ _ _ _ \<Rightarrow> Return (p, doc\<lparr>BRecords := BRecords doc @ [r]\<rparr>)
           | HRecordPtr h \<Rightarrow>
               Return (p, doc\<lparr>HRecordsByTLC := (HRecordsByTLC doc)(hTLC h \<mapsto> h)\<rparr>)
           | HFDTERecord h d _ \<Rightarrow>
               Return (p\<lparr>date := d\<rparr>, doc\<lparr>HRecordsByTLC := (HRecordsByTLC doc)(hTLC h \<mapsto> h)\<rparr>)
           | IRecord additions \<Rightarrow> andThen (installIRecord p additions) (\<lambda>p'. Return (p', doc))
           | JRecord additions \<Rightarrow> Return (p\<lparr>kRecordAdditions := additions\<rparr>, doc)
           | KRecord _ _ \<Rightarrow> Return (p, doc\<lparr>KRecords := KRecords doc @ [r]\<rparr>)
           | MRecord additions \<Rightarrow> Return (p\<lparr>nRecordAdditions := additions\<rparr>, doc)
           | _ \<Rightarrow> Return (p, doc))
      | _ \<Rightarrow> Return (p, doc))"

text \<open>The body of the loop of \<^verbatim>\<open>parseLines\<close> for the line of index \<open>i\<close>.\<close>

definition parseLine :: "nat \<Rightarrow> bytes \<Rightarrow> parser \<times> IGC \<Rightarrow> (parser \<times> IGC) exec" where
  "parseLine i lineStr = (\<lambda>(p, doc).
     if length lineStr = 0 then Return (p, doc)
     else
       andThen (dispatch p lineStr) (\<lambda>((record, err), p').
         let err' = (if \<not> allowInvalidChars p'
                     then (case invalidCharsRx lineStr of
                             Some invalidChar \<Rightarrow> err @ [InvalidCharError invalidChar]
                           | None \<Rightarrow> err)
                     else err);
             doc' = doc\<lparr>Records := Records doc @ [record],
                        Errs := (if err' \<noteq> [] then Errs doc @ [(int i + 1, err')] else Errs doc)\<rparr>
         in update p' doc' record))"

fun parseLinesLoop :: "nat \<Rightarrow> bytes list \<Rightarrow> parser \<times> IGC \<Rightarrow> (parser \<times> IGC) exec" where
  "parseLinesLoop i [] st = Return st"
| "parseLinesLoop i (lineStr # rest) st =
     andThen (parseLine i lineStr st) (parseLinesLoop (Suc i) rest)"

definition emptyIGC :: IGC where
  "emptyIGC = \<lparr>Records = [], Errs = [], HRecordsByTLC = Map.empty, BRecords = [], KRecords = []\<rparr>"

definition parseLines :: "parser \<Rightarrow> bytes list \<Rightarrow> IGC exec" where
  "parseLines p lines =
     andThen (parseLinesLoop 0 lines (p, emptyIGC)) (\<lambda>(p', doc). Return doc)"

text \<open>\<^verbatim>\<open>ParseLines(lines, options...)\<close> with the one option there is.\<close>

definition ParseLines :: "bytes list \<Rightarrow> bool \<Rightarrow> IGC exec" where
  "ParseLines lines allow = parseLines (newParser allow) lines"

subsection \<open>Notions used in the statements\<close>

text \<open>The state of the parser and the document when the loop of \<^verbatim>\<open>parseLines\<close> ends,
  for a parser fresh from \<^verbatim>\<open>newParser\<close>.\<close>

definition run :: "bool \<Rightarrow> bytes list \<Rightarrow> (parser \<times> IGC) exec" where
  "run allow lines = parseLinesLoop 0 lines (newParser allow, emptyIGC)"

text \<open>The time of a record that bears one (B, E, F, K and N records).\<close>

fun recordTime :: "Slot \<Rightarrow> int option" where
  "recordTime (Pointer (BRecord t _ _ _ _ _ _)) = Some t"
| "recordTime (Pointer (ERecord t _ _)) = Some t"
| "recordTime (Pointer (ERecordWithoutTLC t _)) = Some t"
| "recordTime (Pointer (FRecord t _)) = Some t"
| "recordTime (Pointer (KRecord t _)) = Some t"
| "recordTime (Pointer (NRecord t _)) = Some t"
| "recordTime _ = None"

definition timestamps :: "Slot list \<Rightarrow> int list" where
  "timestamps records = List.map_filter recordTime records"

text \<open>\<^verbatim>\<open>durationSinceMidnight\<close> as \<^verbatim>\<open>parseTime\<close> computes it.\<close>

definition durationSinceMidnight :: "bytes \<Rightarrow> bytes \<Rightarrow> bytes \<Rightarrow> int \<Rightarrow> int" where
  "durationSinceMidnight hourData minuteData secondData nanosecond =
     wrap64 (fst (atoi hourData) * 3600000000000 + fst (atoi minuteData) * 60000000000
             + fst (atoi secondData) * 1000000000 + nanosecond)"

definition columnsOK :: "int \<Rightarrow> RecordAddition \<Rightarrow> bool" where
  "columnsOK lo a = (lo \<le> StartColumn a \<and> StartColumn a \<le> FinishColumn a)"

definition twoDigits :: "bytes \<Rightarrow> bool" where
  "twoDigits d = (length d = 2 \<and> list_all isDigit d)"

definition timeFields :: "bytes list \<Rightarrow> bool" where
  "timeFields m = (twoDigits (m ! 1) \<and> twoDigits (m ! 2) \<and> twoDigits (m ! 3))"

fun headerDate :: "Slot \<Rightarrow> int option" where
  "headerDate (Pointer (HFDTERecord _ d _)) = Some d"
| "headerDate _ = None"

fun declaredAdditions :: "Slot \<Rightarrow> RecordAddition list" where
  "declaredAdditions (Pointer (IRecord additions)) = additions"
| "declaredAdditions (Pointer (JRecord additions)) = additions"
| "declaredAdditions (Pointer (MRecord additions)) = additions"
| "declaredAdditions _ = []"

definition timeInv :: "parser \<Rightarrow> IGC \<Rightarrow> bool" where
  "timeInv p doc =
     (0 \<le> date p \<and> date p mod oneDay = 0 \<and> 0 \<le> prevTime p \<and> (date p = 0 \<longrightarrow> prevTime p = 0)
      \<and> sorted (timestamps (Records doc))
      \<and> (\<forall>t \<in> set (timestamps (Records doc)). 0 \<le> t \<and> t \<le> prevTime p))"

text \<open>The result of a run that returns.\<close>

definition returned :: "'a exec \<Rightarrow> 'a option" where
  "returned m = (case m of Return x \<Rightarrow> Some x | _ \<Rightarrow> None)"



text \<open>The message of an \<^verbatim>\<open>unknownRecordTypeError\<close>. The standard library's
  \<^verbatim>\<open>unicode.IsPrint\<close> on a byte (Latin-1: the graphic characters and the space, but
  neither the no-break space nor the soft hyphen), the conversion \<^verbatim>\<open>string(e)\<close> of an
  integer to the UTF-8 form of that code point, and \<^verbatim>\<open>%02X\<close>.\<close>

definition unicode_IsPrint :: "char \<Rightarrow> bool" where
  "unicode_IsPrint c =
     (let b = byte c
      in (0x20 \<le> b \<and> b \<le> 0x7E) \<or> (0xA1 \<le> b \<and> b \<le> 0xAC) \<or> (0xAE \<le> b \<and> b \<le> 0xFF))"

definition runeString :: "char \<Rightarrow> string" where
  "runeString c =
     (if byte c < 0x80 then [c]
      else [char_of (0xC0 + byte c div 64), char_of (0x80 + byte c mod 64)])"

definition hexDigitUpper :: "nat \<Rightarrow> char" where
  "hexDigitUpper n = ''0123456789ABCDEF'' ! n"

definition unknownRecordTypeError_Error :: "char \<Rightarrow> string" where
  "unknownRecordTypeError_Error e =
     (if unicode_IsPrint e then runeString e @ '': unknown record type''
      else [CHR 0x22, CHR 0x5C, CHR ''x'', hexDigitUpper (byte e div 16), hexDigitUpper (byte e mod 16),
            CHR 0x22] @ '': unknown record type'')"

text \<open>The dynamic type of a value of the interface \<^verbatim>\<open>Record\<close>, for stating what a line
  was parsed as.\<close>

fun typeName :: "Record \<Rightarrow> string" where
  "typeName (ARecord _ _ _) = ''*ARecord''"
| "typeName (BRecord _ _ _ _ _ _ _) = ''*BRecord''"
| "typeName (CRecordDeclaration _ _ _ _ _ _ _) = ''*CRecordDeclaration''"
| "typeName (CRecordWaypoint _ _ _) = ''*CRecordWaypoint''"
| "typeName (DRecord _ _) = ''*DRecord''"
| "typeName (ERecord _ _ _) = ''*ERecord''"
| "typeName (ERecordWithoutTLC _ _) = ''*ERecordWithoutTLC''"
| "typeName (FRecord _ _) = ''*FRecord''"
| "typeName (GRecord _) = ''*GRecord''"
| "typeName (HRecordPtr _) = ''*HRecord''"
| "typeName (HRecordWithInvalidSource _ _ _ _) = ''*HRecordWithInvalidSource''"
| "typeName (HFDTERecord _ _ _) = ''*HFDTERecord''"
| "typeName (IRecord _) = ''*IRecord''"
| "typeName (JRecord _) = ''*JRecord''"
| "typeName (KRecord _ _) = ''*KRecord''"
| "typeName (LRecord _ _) = ''*LRecord''"
| "typeName (LRecordWithoutTLC _) = ''*LRecordWithoutTLC''"
| "typeName (MRecord _) = ''*MRecord''"
| "typeName (NRecord _ _) = ''*NRecord''"

fun dynamicType :: "Slot \<Rightarrow> string" where
  "dynamicType NilInterface = ''nil''"
| "dynamicType (NilPointer c) = ''nil pointer''"
| "dynamicType (Pointer r) = typeName r"

text \<open>The addition map of a B, K or N record.\<close>

fun Additions :: "Slot \<Rightarrow> (string \<rightharpoonup> int)" where
  "Additions (Pointer (BRecord _ _ _ _ _ _ additions)) = additions"
| "Additions (Pointer (KRecord _ additions)) = additions"
| "Additions (Pointer (NRecord _ additions)) = additions"
| "Additions _ = Map.empty"




section \<open>Properties\<close>

subsection \<open>Integers\<close>

lemma byte_le: "byte c \<le> 255"
proof -
  have "(of_char c :: nat) = of_char c mod 256" by simp
  also have "\<dots> < 256" by (rule mod_less_divisor) simp
  finally have "(of_char c :: nat) < 256" .
  then show ?thesis unfolding byte_def by linarith
qed

lemma wrap64_id: "- (2 ^ 63) \<le> x \<Longrightarrow> x < 2 ^ 63 \<Longrightarrow> wrap64 x = x"
  by (simp add: wrap64_def)

lemma atoiDigits_bound:
  assumes "list_all isDigit ds" and "0 \<le> r" and "r < 10 ^ k" and "k + length ds \<le> 18"
  shows "\<exists>v. atoiDigits r ds = Some v \<and> 0 \<le> v \<and> v < 10 ^ (k + length ds)"
  using assms
proof (induction ds arbitrary: r k)
  case Nil
  then show ?case by simp
next
  case (Cons b bs)
  from Cons.prems(1) have "isDigit b" and rest: "list_all isDigit bs" by simp_all
  then have d: "48 \<le> byte b" "byte b \<le> 57" by (simp_all add: isDigit_def)
  let ?r = "10 * r + int (byte b) - 48"
  have lo: "0 \<le> ?r" using d Cons.prems(2) by simp
  have "r + 1 \<le> 10 ^ k" using Cons.prems(3) by simp
  then have "10 * (r + 1) \<le> 10 * 10 ^ k" by simp
  then have hi: "?r < 10 ^ Suc k" using d by simp
  have "Suc k \<le> 18" using Cons.prems(4) by simp
  then have "(10::int) ^ Suc k \<le> 10 ^ 18" by (intro power_increasing) simp_all
  with hi have "?r < 2 ^ 63" by simp
  with lo have w: "wrap64 ?r = ?r" by (intro wrap64_id) simp_all
  from Cons.IH [OF rest lo hi] Cons.prems(4)
  obtain v where "atoiDigits ?r bs = Some v" "0 \<le> v" "v < 10 ^ (Suc k + length bs)" by auto
  then show ?case using d w by auto
qed

lemma atoi_digits:
  assumes "list_all isDigit ds" and "ds \<noteq> []" and "length ds \<le> 18"
  shows "\<exists>v. atoi ds = (v, None) \<and> 0 \<le> v \<and> v < 10 ^ length ds"
proof -
  from atoiDigits_bound [OF assms(1), of 0 0] assms(3)
  obtain v where v: "atoiDigits 0 ds = Some v" "0 \<le> v" "v < 10 ^ length ds" by auto
  have "(10::int) ^ length ds \<le> 10 ^ 18" using assms(3) by (intro power_increasing) simp_all
  with v have "wrap64 v = v" by (intro wrap64_id) simp_all
  moreover from assms(1,2) have "hd ds \<noteq> CHR ''-''"
    by (cases ds) (auto simp: isDigit_def byte_def)
  ultimately show ?thesis using v assms(2)
    by (cases ds) (auto simp: atoi_def)
qed

lemma atoi_twoDigits: "twoDigits d \<Longrightarrow> 0 \<le> fst (atoi d) \<and> fst (atoi d) \<le> 99"
proof -
  assume d: "twoDigits d"
  then have "d \<noteq> []" by (auto simp: twoDigits_def)
  with d atoi_digits [of d] show ?thesis by (auto simp: twoDigits_def)
qed

subsection \<open>Accepted additions lie at or after the first expected column\<close>

lemma additionStep_columns:
  assumes "additionStep m2 i (adds, errs, cur) = (adds', errs', cur')"
    and "lo \<le> cur" and "\<forall>a \<in> set adds. columnsOK lo a"
  shows "lo \<le> cur' \<and> (\<forall>a \<in> set adds'. columnsOK lo a)"
  using assms
  by (auto simp: additionStep_def Let_def columnsOK_def split: if_splits)

lemma fold_additionStep_columns:
  assumes "fold (additionStep m2) is (adds, errs, cur) = (adds', errs', cur')"
    and "lo \<le> cur" and "\<forall>a \<in> set adds. columnsOK lo a"
  shows "lo \<le> cur' \<and> (\<forall>a \<in> set adds'. columnsOK lo a)"
  using assms
proof (induction "is" arbitrary: adds errs cur)
  case Nil
  then show ?case by simp
next
  case (Cons i "is")
  obtain a1 e1 c1 where s: "additionStep m2 i (adds, errs, cur) = (a1, e1, c1)"
    by (cases "additionStep m2 i (adds, errs, cur)") auto
  from additionStep_columns [OF s Cons.prems(2) Cons.prems(3)]
  have "lo \<le> c1" and "\<forall>a \<in> set a1. columnsOK lo a" by simp_all
  moreover from Cons.prems(1) s
  have "fold (additionStep m2) is (a1, e1, c1) = (adds', errs', cur')" by simp
  ultimately show ?case by (rule Cons.IH [rotated 1])
qed

lemma parseRecordAdditions_columns:
  assumes "parseRecordAdditions line startColumn = Return (adds, errs)" and "a \<in> set adds"
  shows "columnsOK startColumn a"
proof -
  from assms(1) consider (loop) m n e c where
      "fold (additionStep (m ! 2)) [0..<n] ([], [], startColumn) = (adds, e, c)"
    | (none) "adds = []"
    by (auto simp: parseRecordAdditions_def Let_def split: list.splits option.splits if_splits prod.splits)
  then show ?thesis
  proof cases
    case loop
    from fold_additionStep_columns [OF loop, of startColumn] assms(2) show ?thesis by simp
  next
    case none
    with assms(2) show ?thesis by simp
  qed
qed

subsection \<open>Matching\<close>

lemma matchClasses_Some:
  "matchClasses ps s = Some (g, r) \<Longrightarrow> s = g @ r \<and> list_all2 (\<lambda>p c. p c) ps g"
  by (induction ps s arbitrary: g r rule: matchClasses.induct)
     (auto split: if_splits option.splits)

lemma matchClasses_digits:
  "matchClasses (digits n) s = Some (g, r) \<Longrightarrow> length g = n \<and> list_all isDigit g"
  by (drule matchClasses_Some)
     (auto simp: digits_def list_all2_conv_all_nth list_all_length)

lemma matchClasses_two: "matchClasses (digits 2) s = Some (g, r) \<Longrightarrow> twoDigits g"
  using matchClasses_digits [of 2 s g r] by (simp add: twoDigits_def)

lemma matchGroups_ConsE:
  assumes "matchGroups (g # gs) s = Some (ms, r)"
  obtains m r' ms' where "matchClasses g s = Some (m, r')" "matchGroups gs r' = Some (ms', r)"
    "ms = m # ms'"
  using assms by (auto split: option.splits)

lemma matchGroups_hms:
  assumes "matchGroups (digits 2 # digits 2 # digits 2 # gs) s = Some (ms, r)"
  shows "\<exists>h m s' rest. ms = h # m # s' # rest \<and> twoDigits h \<and> twoDigits m \<and> twoDigits s'"
proof -
  from assms obtain h r1 ms1 where h: "matchClasses (digits 2) s = Some (h, r1)"
    and 1: "matchGroups (digits 2 # digits 2 # gs) r1 = Some (ms1, r)" and m1: "ms = h # ms1"
    by (rule matchGroups_ConsE)
  from 1 obtain m r2 ms2 where m: "matchClasses (digits 2) r1 = Some (m, r2)"
    and 2: "matchGroups (digits 2 # gs) r2 = Some (ms2, r)" and m2: "ms1 = m # ms2"
    by (rule matchGroups_ConsE)
  from 2 obtain s' r3 ms3 where s': "matchClasses (digits 2) r2 = Some (s', r3)"
    and m3: "ms2 = s' # ms3"
    by (rule matchGroups_ConsE)
  from h m s' have "twoDigits h" "twoDigits m" "twoDigits s'"
    by (auto dest: matchClasses_two)
  with m1 m2 m3 show ?thesis by simp
qed

lemma prefixed_hms:
  assumes "prefixed pre (digits 2 # digits 2 # digits 2 # gs) line = Some (ms, r)"
  shows "\<exists>h m s' rest. ms = h # m # s' # rest \<and> twoDigits h \<and> twoDigits m \<and> twoDigits s'"
proof -
  from assms obtain x where "matchGroups (digits 2 # digits 2 # digits 2 # gs) x = Some (ms, r)"
    by (auto simp: prefixed_def split: option.splits)
  then show ?thesis by (rule matchGroups_hms)
qed

lemma withRest_hms:
  "withRest pre (digits 2 # digits 2 # digits 2 # gs) line = Some m \<Longrightarrow> timeFields m"
  by (auto simp: withRest_def timeFields_def split: option.splits if_splits dest!: prefixed_hms)

lemma exact_hms:
  "exact pre (digits 2 # digits 2 # digits 2 # gs) line = Some m \<Longrightarrow> timeFields m"
  by (auto simp: exact_def timeFields_def split: option.splits if_splits dest!: prefixed_hms)


lemma eRecordRx_time: "eRecordRx line = Some m \<Longrightarrow> timeFields m"
  unfolding eRecordRx_def by (rule withRest_hms)

lemma eRecordWithoutTLCRx_time: "eRecordWithoutTLCRx line = Some m \<Longrightarrow> timeFields m"
  unfolding eRecordWithoutTLCRx_def by (rule withRest_hms)

lemma knRecordRx_time: "knRecordRx line = Some m \<Longrightarrow> timeFields m"
  unfolding knRecordRx_def by (rule withRest_hms)

lemma fRecordRx_time: "fRecordRx line = Some m \<Longrightarrow> timeFields m"
  by (auto simp: fRecordRx_def timeFields_def split: option.splits if_splits dest!: prefixed_hms)

lemma hfdteRecordRx_time: "hfdteRecordRx line = Some m \<Longrightarrow> timeFields m"
  unfolding hfdteRecordRx_def by (rule exact_hms)

lemma hfdteRecordValueRx_time:
  assumes "hfdteRecordValueRx v = Some m"
  shows "timeFields m"
proof -
  from assms consider
    (long) x s where "exact [] [digits 2, digits 2, digits 2, lit '','', digits 2] s = Some x"
      "m = [x ! 0, x ! 1, x ! 2, x ! 3, x ! 5]"
  | (short) x s where "exact [] [digits 2, digits 2, digits 2] s = Some x" "m = x @ [[]]"
    by (auto simp: hfdteRecordValueRx_def Let_def split: option.splits if_splits)
  then show ?thesis
  proof cases
    case long
    from exact_hms [OF long(1)] long(2) show ?thesis by (simp add: timeFields_def)
  next
    case short
    from short(1) obtain ms r where "prefixed [] [digits 2, digits 2, digits 2] s = Some (ms, r)"
      and x: "x = s # ms"
      by (auto simp: exact_def split: option.splits if_splits)
    from prefixed_hms [OF this(1)] x short(2) show ?thesis
      by (auto simp: timeFields_def)
  qed
qed

subsection \<open>Time\<close>

lemma rollover_spec:
  "\<exists>k. rollover d dur prev = (d + int k * oneDay + dur, d + int k * oneDay)
       \<and> \<not> d + int k * oneDay + dur < prev
       \<and> (\<forall>j<k. d + int j * oneDay + dur < prev)"
proof (induction d dur prev rule: rollover.induct)
  case (1 d dur prev)
  show ?case
  proof (cases "d + dur < prev")
    case False
    then have "rollover d dur prev = (d + dur, d)" by (simp add: rollover.simps)
    with False show ?thesis by (intro exI [of _ 0]) simp
  next
    case True
    from "1" [OF refl] True obtain k where
      k: "rollover (d + oneDay) dur prev = (d + oneDay + int k * oneDay + dur, d + oneDay + int k * oneDay)"
        "\<not> d + oneDay + int k * oneDay + dur < prev"
        "\<forall>j<k. d + oneDay + int j * oneDay + dur < prev"
      by auto
    from True have "rollover d dur prev = rollover (d + oneDay) dur prev"
      by (subst rollover.simps) simp
    moreover have "\<forall>j<Suc k. d + int j * oneDay + dur < prev"
    proof (intro allI impI)
      fix j assume "j < Suc k"
      then show "d + int j * oneDay + dur < prev"
        using True k(3) by (cases j) (auto simp: algebra_simps)
    qed
    ultimately show ?thesis using k(1,2)
      by (intro exI [of _ "Suc k"]) (simp add: algebra_simps)
  qed
qed

lemma parseTime_nodate:
  "date p = 0 \<Longrightarrow> parseTime p h m s ns errs = ((0, errs @ [ErrNoDate]), p)"
  by (simp add: parseTime_def)

lemma parseTime_dated:
  assumes "date p \<noteq> 0"
  shows "\<exists>k. parseTime p h m s ns errs =
           ((date p + int k * oneDay + durationSinceMidnight h m s ns, errs),
            p\<lparr>date := date p + int k * oneDay,
              prevTime := date p + int k * oneDay + durationSinceMidnight h m s ns\<rparr>)
        \<and> \<not> date p + int k * oneDay + durationSinceMidnight h m s ns < prevTime p
        \<and> (\<forall>j<k. date p + int j * oneDay + durationSinceMidnight h m s ns < prevTime p)"
proof -
  from rollover_spec [of "date p" "durationSinceMidnight h m s ns" "prevTime p"]
  obtain k where "rollover (date p) (durationSinceMidnight h m s ns) (prevTime p) =
      (date p + int k * oneDay + durationSinceMidnight h m s ns, date p + int k * oneDay)"
    "\<not> date p + int k * oneDay + durationSinceMidnight h m s ns < prevTime p"
    "\<forall>j<k. date p + int j * oneDay + durationSinceMidnight h m s ns < prevTime p"
    by blast
  with assms show ?thesis
    by (intro exI [of _ k]) (simp add: parseTime_def durationSinceMidnight_def Let_def)
qed

text \<open>What a call of \<open>parseTime\<close> does to the state, as far as the order of times goes.\<close>

lemma parseTime_cases:
  assumes "parseTime p h m s ns errs = ((t, errs'), p')"
  obtains (nodate) "date p = 0" "t = 0" "p' = p" "errs' = errs @ [ErrNoDate]"
  | (dated) k where "date p \<noteq> 0" "p' = p\<lparr>date := date p + int k * oneDay, prevTime := t\<rparr>"
      "prevTime p \<le> t" "errs' = errs"
      "t = date p + int k * oneDay + durationSinceMidnight h m s ns"
proof (cases "date p = 0")
  case True
  with assms parseTime_nodate [OF True, of h m s ns errs] show ?thesis
    by (intro nodate) simp_all
next
  case False
  from parseTime_dated [OF False, of h m s ns errs] assms obtain k where
    "t = date p + int k * oneDay + durationSinceMidnight h m s ns"
    "errs' = errs" "p' = p\<lparr>date := date p + int k * oneDay, prevTime := t\<rparr>"
    "\<not> t < prevTime p"
    by auto
  with False show ?thesis by (intro dated [of k]) simp_all
qed

lemma daysSinceEpoch_pos:
  assumes "1992 \<le> y"
  shows "726715 \<le> daysSinceEpoch y"
proof -
  define q4 q100 q400 where "q4 = (y - 1) div 4" and "q100 = (y - 1) div 100"
    and "q400 = (y - 1) div 400"
  from assms have a: "0 \<le> y - 1" by simp
  have "q100 \<le> q4" unfolding q4_def q100_def using a by (intro zdiv_mono2) simp_all
  moreover have "0 \<le> q400" unfolding q400_def using a by (simp add: pos_imp_zdiv_nonneg_iff)
  moreover have "daysSinceEpoch y = 365 * (y - 1) + q4 - q100 + q400"
    by (simp add: daysSinceEpoch_def q4_def q100_def q400_def)
  moreover have "365 * 1991 \<le> 365 * (y - 1)" using assms by (intro mult_left_mono) simp_all
  ultimately show ?thesis by simp
qed

lemma daysBefore_nonneg: "0 \<le> m \<Longrightarrow> m < 12 \<Longrightarrow> 0 \<le> daysBefore m"
proof -
  assume "0 \<le> m" "m < 12"
  then have "nat m \<in> {0..<12}" by auto
  then have "nat m \<in> set [0..<12]" by simp
  then show ?thesis unfolding daysBefore_def
    by (simp add: upt_conv_Cons) (elim disjE; simp)
qed

lemma hfdteDate_pos:
  assumes "timeFields m"
  shows "0 < hfdteDate m \<and> hfdteDate m mod oneDay = 0"
proof -
  from assms have d: "0 \<le> fst (atoi (m ! 1))" and mo: "0 \<le> fst (atoi (m ! 2))"
    and y: "0 \<le> fst (atoi (m ! 3))"
    by (auto simp: timeFields_def dest: atoi_twoDigits)
  let ?m0 = "fst (atoi (m ! 2)) - 1"
  let ?y = "makeYear (fst (atoi (m ! 3))) + ?m0 div 12"
  have "(- 1) div 12 \<le> ?m0 div 12" using mo by (intro zdiv_mono1) simp_all
  then have "- 1 \<le> ?m0 div 12" by simp
  moreover have "1993 \<le> makeYear (fst (atoi (m ! 3)))" using y by (simp add: makeYear_def)
  ultimately have "1992 \<le> ?y" by linarith
  then have a: "726715 \<le> daysSinceEpoch ?y" by (rule daysSinceEpoch_pos)
  have b: "0 \<le> daysBefore (?m0 mod 12)" by (intro daysBefore_nonneg) simp_all
  define days where "days = daysSinceEpoch ?y + daysBefore (?m0 mod 12)
      + (if isLeap ?y \<and> 2 \<le> ?m0 mod 12 then 1 else 0) + fst (atoi (m ! 1)) - 1"
  have e: "hfdteDate m = days * oneDay"
    by (simp add: hfdteDate_def time_Date_def Let_def oneDay_def days_def)
  have "0 < days" using a b d by (simp add: days_def)
  then show ?thesis unfolding e by (simp add: oneDay_def)
qed

subsection \<open>What the grammars do to the state\<close>

lemma andThen_Return:
  "andThen m f = Return y \<longleftrightarrow> (\<exists>x. m = Return x \<and> f x = Return y)"
  by (cases m) (simp_all add: andThen_def)

lemma parseBRecord_time:
  assumes "parseBRecord p line = Return ((r, err), p')"
  shows "(r = None \<and> p' = p) \<or>
         (\<exists>t lat lon v a b ad h m s ns e e'.
            r = Some (BRecord t lat lon v a b ad) \<and> parseTime p h m s ns e = ((t, e'), p'))"
proof (cases "bRecordRx line")
  case None
  with assms show ?thesis by (simp add: parseBRecord_def)
next
  case (Some m)
  with assms obtain ns e1 where
    rest: "(case parseTime p (m ! 1) (m ! 2) (m ! 3) ns e1 of
              ((t, errs2), p1) \<Rightarrow>
                andThen (withAddition (ladBRecordAddition p1) line errs2 (fst (atoi (m ! 5)))
                           (\<lambda>lad. wrap64 (latMinMul p1 * fst (atoi (m ! 5)) + lad)))
                (\<lambda>(latMin, errs3).
                  andThen (withAddition (lodBRecordAddition p1) line errs3 (fst (atoi (m ! 8)))
                             (\<lambda>lod. wrap64 (lonMinMul p1 * fst (atoi (m ! 8)) + lod)))
                  (\<lambda>(lonMin, errs4).
                    andThen (if bRecordAdditions p1 \<noteq> []
                             then additionsLoop (bRecordAdditions p1) line Map.empty errs4
                             else Return (Map.empty, errs4))
                    (\<lambda>(additions, errs5).
                      Return ((Some (BRecord t
                                 (coordinate (fst (atoi (m ! 4))) latMin (latMinDiv p1) (m ! 6 = ''S''))
                                 (coordinate (fst (atoi (m ! 7))) lonMin (lonMinDiv p1) (m ! 9 = ''W''))
                                 (hd (m ! 10))
                                 (Finite (real_of_int (fst (atoi (m ! 12)))))
                                 (Finite (real_of_int (fst (atoi (m ! 11)))))
                                 additions), errs5), p1))))) = Return ((r, err), p')"
    by (auto simp: parseBRecord_def andThen_Return)
  obtain t e2 p1 where pt: "parseTime p (m ! 1) (m ! 2) (m ! 3) ns e1 = ((t, e2), p1)"
    by (cases "parseTime p (m ! 1) (m ! 2) (m ! 3) ns e1") auto
  from rest have "p1 = p' \<and> (\<exists>lat lon v a b ad. r = Some (BRecord t lat lon v a b ad))"
    unfolding pt by (auto simp: andThen_Return)
  with pt show ?thesis by blast
qed

lemma parseKRecord_time:
  assumes "parseKRecord p line = Return ((r, err), p')"
  shows "(r = None \<and> p' = p) \<or>
         (\<exists>t ad h m s ns e e'. r = Some (KRecord t ad) \<and> parseTime p h m s ns e = ((t, e'), p'))"
proof (cases "knRecordRx line")
  case None
  with assms show ?thesis by (simp add: parseKRecord_def)
next
  case (Some m)
  with assms show ?thesis
    by (auto simp: parseKRecord_def andThen_Return split: prod.splits)
qed

lemma parseNRecord_time:
  assumes "parseNRecord p line = Return ((r, err), p')"
  shows "(r = None \<and> p' = p) \<or>
         (\<exists>t ad h m s ns e e'. r = Some (NRecord t ad) \<and> parseTime p h m s ns e = ((t, e'), p'))"
proof (cases "knRecordRx line")
  case None
  with assms show ?thesis by (simp add: parseNRecord_def)
next
  case (Some m)
  with assms show ?thesis
    by (auto simp: parseNRecord_def andThen_Return split: prod.splits)
qed

lemma parseERecord_time:
  assumes "parseERecord p line = ((r, err), p')"
  shows "(r = NilInterface \<and> p' = p) \<or>
         (\<exists>t h m s ns e e'. recordTime r = Some t \<and> headerDate r = None
            \<and> declaredAdditions r = [] \<and> parseTime p h m s ns e = ((t, e'), p'))"
  using assms
  by (auto simp: parseERecord_def split: option.splits prod.splits)

lemma parseFRecord_time:
  assumes "parseFRecord p line = ((r, err), p')"
  shows "(r = None \<and> p' = p) \<or>
         (\<exists>t ids h m s ns e e'. r = Some (FRecord t ids) \<and> parseTime p h m s ns e = ((t, e'), p'))"
  using assms
  by (auto simp: parseFRecord_def Let_def split: option.splits prod.splits)

lemma ptr_simps [simp]:
  "ptr c None = NilPointer c" "ptr c (Some r) = Pointer r"
  by (simp_all add: ptr_def)

lemma parseHRecord_date:
  assumes "parseHRecord line = (record, err)" and "headerDate record = Some d"
  shows "0 < d \<and> d mod oneDay = 0"
proof -
  from assms obtain m where "timeFields m" and "d = hfdteDate m"
    by (auto simp: parseHRecord_def Let_def split: option.splits if_splits
             dest: hfdteRecordRx_time hfdteRecordValueRx_time)
  then show ?thesis by (simp add: hfdteDate_pos)
qed

lemma parseHRecord_plain:
  "parseHRecord line = (record, err) \<Longrightarrow> recordTime record = None \<and> declaredAdditions record = []"
  by (auto simp: parseHRecord_def Let_def split: option.splits if_splits)

lemma parseARecord_plain:
  "parseARecord line = (Some x, err) \<Longrightarrow> \<exists>a b c. x = ARecord a b c"
  by (auto simp: parseARecord_def split: option.splits if_splits prod.splits)

lemma parseCRecord_plain:
  "parseCRecord p line = (slot, err) \<Longrightarrow>
     recordTime slot = None \<and> declaredAdditions slot = [] \<and> headerDate slot = None"
  by (auto simp: parseCRecord_def parseCRecordDeclaration_def parseCRecordWaypoint_def
           split: option.splits if_splits prod.splits list.splits)

lemma parseDRecord_plain:
  "parseDRecord line = (Some x, err) \<Longrightarrow> \<exists>a b. x = DRecord a b"
  by (auto simp: parseDRecord_def split: option.splits)

lemma parseGRecord_plain:
  "parseGRecord line = (Some x, err) \<Longrightarrow> \<exists>a. x = GRecord a"
  by (auto simp: parseGRecord_def split: option.splits)

lemma parseLRecord_plain:
  "parseLRecord line = (slot, err) \<Longrightarrow>
     recordTime slot = None \<and> declaredAdditions slot = [] \<and> headerDate slot = None"
  by (auto simp: parseLRecord_def split: option.splits)

lemma parseIRecord_plain:
  "parseIRecord line = Return (Some x, err) \<Longrightarrow>
     \<exists>adds. x = IRecord adds \<and> list_all (columnsOK 36) adds"
  by (auto simp: parseIRecord_def andThen_Return list_all_iff split: if_splits
           dest: parseRecordAdditions_columns)

lemma parseJRecord_plain:
  "parseJRecord line = Return (Some x, err) \<Longrightarrow>
     \<exists>adds. x = JRecord adds \<and> list_all (columnsOK 8) adds"
  by (auto simp: parseJRecord_def andThen_Return list_all_iff split: if_splits
           dest: parseRecordAdditions_columns)

lemma parseMRecord_plain:
  "parseMRecord line = Return (Some x, err) \<Longrightarrow>
     \<exists>adds. x = MRecord adds \<and> list_all (columnsOK 8) adds"
  by (auto simp: parseMRecord_def andThen_Return list_all_iff split: if_splits
           dest: parseRecordAdditions_columns)

lemma recordTime_Some:
  "recordTime slot = Some t \<Longrightarrow> headerDate slot = None \<and> declaredAdditions slot = []"
  by (erule recordTime.elims) simp_all

text \<open>The dispatcher either leaves the state alone and gives a record without a time, or
  gives a record whose time comes from one call of \<open>parseTime\<close> on the state.\<close>

lemma dispatch_cases:
  assumes "dispatch p line = Return ((record, err), p')"
  obtains (plain) "p' = p" "recordTime record = None"
  | (timed) t h m s ns e e' where "parseTime p h m s ns e = ((t, e'), p')"
      "recordTime record = Some t" "headerDate record = None" "declaredAdditions record = []"
proof -
  from assms obtain c cs where line: "line = c # cs"
    by (cases line) (auto simp: dispatch_def)
  have "(p' = p \<and> recordTime record = None) \<or>
        (\<exists>t h m s ns e e'. parseTime p h m s ns e = ((t, e'), p') \<and> recordTime record = Some t
            \<and> headerDate record = None \<and> declaredAdditions record = [])"
    using assms unfolding line dispatch_def
    by (auto simp: andThen_Return ptr_def split: if_splits prod.splits option.splits
             dest!: parseBRecord_time parseKRecord_time parseNRecord_time parseFRecord_time
                    parseERecord_time
                    parseARecord_plain parseDRecord_plain parseGRecord_plain
                    parseIRecord_plain parseJRecord_plain parseMRecord_plain
             dest: parseCRecord_plain parseHRecord_plain parseLRecord_plain)
  then show ?thesis using plain timed by blast
qed

lemma dispatch_header:
  assumes "dispatch p line = Return ((record, err), p')" and "headerDate record = Some d"
  shows "0 < d \<and> d mod oneDay = 0"
proof -
  from assms obtain c cs where line: "line = c # cs"
    by (cases line) (auto simp: dispatch_def)
  from assms(1) have "c = CHR ''H'' \<longrightarrow> parseHRecord line = (record, err)"
    unfolding line dispatch_def by auto
  moreover from assms have "c = CHR ''H''"
    unfolding line dispatch_def
    by (auto simp: andThen_Return ptr_def split: if_splits prod.splits option.splits
             dest!: parseBRecord_time parseKRecord_time parseNRecord_time parseFRecord_time
                    parseERecord_time
                    parseARecord_plain parseDRecord_plain parseGRecord_plain
                    parseIRecord_plain parseJRecord_plain parseMRecord_plain
             dest: parseCRecord_plain parseLRecord_plain)
  ultimately show ?thesis using assms(2) by (auto dest: parseHRecord_date)
qed



text \<open>The three steps of \<open>installIRecord\<close> after the table has been extended.\<close>

lemma installIRecord_stages:
  assumes "installIRecord p additions = Return p'"
  obtains p1 p2 p3 where
    "p1 = p\<lparr>bRecordAdditions := bRecordAdditions p @ additions,
             bRecordsAdditionsByTLC :=
               fold (\<lambda>a m. m(TLC a \<mapsto> a)) additions (bRecordsAdditionsByTLC p)\<rparr>"
    "(bRecordsAdditionsByTLC p1 ''LAD'' = None \<and> p2 = p1) \<or>
     (\<exists>a mul d. bRecordsAdditionsByTLC p1 ''LAD'' = Some a
        \<and> p2 = p1\<lparr>ladBRecordAddition := Some a, latMinMul := mul, latMinDiv := d\<rparr>)"
    "(bRecordsAdditionsByTLC p2 ''LOD'' = None \<and> p3 = p2) \<or>
     (\<exists>a mul d. bRecordsAdditionsByTLC p2 ''LOD'' = Some a
        \<and> p3 = p2\<lparr>lodBRecordAddition := Some a, lonMinMul := mul, lonMinDiv := d\<rparr>)"
    "(bRecordsAdditionsByTLC p3 ''TDS'' = None \<and> p' = p3) \<or>
     (\<exists>a mul. bRecordsAdditionsByTLC p3 ''TDS'' = Some a
        \<and> intPow 10 (9 - (FinishColumn a - StartColumn a + 1)) = Return mul
        \<and> p' = p3\<lparr>tdsBRecordAddition := Some a, fracSecondMul := mul\<rparr>)"
proof -
  define p1 where "p1 = p\<lparr>bRecordAdditions := bRecordAdditions p @ additions,
             bRecordsAdditionsByTLC :=
               fold (\<lambda>a m. m(TLC a \<mapsto> a)) additions (bRecordsAdditionsByTLC p)\<rparr>"
  from assms obtain p2 p3 where
    s1: "(case bRecordsAdditionsByTLC p1 ''LAD'' of
              None \<Rightarrow> Return p1
            | Some a \<Rightarrow>
                let n = FinishColumn a - StartColumn a + 1 in
                andThen (intPow 10 n) (\<lambda>mul. andThen (intPow 10 n) (\<lambda>d.
                  Return (p1\<lparr>ladBRecordAddition := Some a, latMinMul := mul,
                              latMinDiv := real_of_int (wrap64 (60000 * d))\<rparr>)))) = Return p2"
    and s2: "(case bRecordsAdditionsByTLC p2 ''LOD'' of
                 None \<Rightarrow> Return p2
               | Some a \<Rightarrow>
                   let n = FinishColumn a - StartColumn a + 1 in
                   andThen (intPow 10 n) (\<lambda>mul. andThen (intPow 10 n) (\<lambda>d.
                     Return (p2\<lparr>lodBRecordAddition := Some a, lonMinMul := mul,
                                 lonMinDiv := real_of_int (wrap64 (60000 * d))\<rparr>)))) = Return p3"
    and s3: "(case bRecordsAdditionsByTLC p3 ''TDS'' of
                   None \<Rightarrow> Return p3
                 | Some a \<Rightarrow>
                     let n = FinishColumn a - StartColumn a + 1 in
                     andThen (intPow 10 (9 - n)) (\<lambda>mul.
                       Return (p3\<lparr>tdsBRecordAddition := Some a, fracSecondMul := mul\<rparr>))) = Return p'"
    unfolding installIRecord_def p1_def Let_def andThen_Return by blast
  from s1 have 1: "(bRecordsAdditionsByTLC p1 ''LAD'' = None \<and> p2 = p1) \<or>
     (\<exists>a mul d. bRecordsAdditionsByTLC p1 ''LAD'' = Some a
        \<and> p2 = p1\<lparr>ladBRecordAddition := Some a, latMinMul := mul, latMinDiv := d\<rparr>)"
    by (cases "bRecordsAdditionsByTLC p1 ''LAD''") (auto simp: Let_def andThen_Return)
  from s2 have 2: "(bRecordsAdditionsByTLC p2 ''LOD'' = None \<and> p3 = p2) \<or>
     (\<exists>a mul d. bRecordsAdditionsByTLC p2 ''LOD'' = Some a
        \<and> p3 = p2\<lparr>lodBRecordAddition := Some a, lonMinMul := mul, lonMinDiv := d\<rparr>)"
    by (cases "bRecordsAdditionsByTLC p2 ''LOD''") (auto simp: Let_def andThen_Return)
  from s3 have 3: "(bRecordsAdditionsByTLC p3 ''TDS'' = None \<and> p' = p3) \<or>
     (\<exists>a mul. bRecordsAdditionsByTLC p3 ''TDS'' = Some a
        \<and> intPow 10 (9 - (FinishColumn a - StartColumn a + 1)) = Return mul
        \<and> p' = p3\<lparr>tdsBRecordAddition := Some a, fracSecondMul := mul\<rparr>)"
    by (cases "bRecordsAdditionsByTLC p3 ''TDS''") (auto simp: Let_def andThen_Return)
  from that [OF p1_def 1 2 3] show thesis .
qed

lemma installIRecord_frame:
  assumes "installIRecord p additions = Return p'"
  shows "date p' = date p \<and> prevTime p' = prevTime p \<and> allowInvalidChars p' = allowInvalidChars p
       \<and> cRecords p' = cRecords p \<and> kRecordAdditions p' = kRecordAdditions p
       \<and> nRecordAdditions p' = nRecordAdditions p
       \<and> bRecordAdditions p' = bRecordAdditions p @ additions"
  using assms by (rule installIRecord_stages) auto

lemma update_frame:
  assumes "update p doc record = Return (p', doc')"
  shows "Records doc' = Records doc \<and> Errs doc' = Errs doc \<and> prevTime p' = prevTime p
       \<and> allowInvalidChars p' = allowInvalidChars p \<and> cRecords p' = cRecords p
       \<and> date p' = (case headerDate record of None \<Rightarrow> date p | Some d \<Rightarrow> d)"
  using assms
  by (auto simp: update_def andThen_Return split: Slot.splits Record.splits
           dest: installIRecord_frame)

lemma parseLine_nonempty:
  assumes "lineStr \<noteq> []" and "parseLine i lineStr (p, doc) = Return (p', doc')"
  shows "\<exists>slot err p1 doc1.
           update p1 doc1 slot = Return (p', doc')
         \<and> dispatch p lineStr = Return ((slot, err), p1)
         \<and> Records doc1 = Records doc @ [slot]
         \<and> (Errs doc1 = Errs doc \<or> (\<exists>e. e \<noteq> [] \<and> Errs doc1 = Errs doc @ [(int i + 1, e)]))
         \<and> HRecordsByTLC doc1 = HRecordsByTLC doc \<and> BRecords doc1 = BRecords doc
         \<and> KRecords doc1 = KRecords doc"
proof -
  from assms obtain slot err p1 where d: "dispatch p lineStr = Return ((slot, err), p1)"
    by (auto simp: parseLine_def andThen_Return)
  define err' where "err' = (if \<not> allowInvalidChars p1
                     then (case invalidCharsRx lineStr of
                             Some invalidChar \<Rightarrow> err @ [InvalidCharError invalidChar]
                           | None \<Rightarrow> err)
                     else err)"
  define doc1 where "doc1 = doc\<lparr>Records := Records doc @ [slot],
                        Errs := (if err' \<noteq> [] then Errs doc @ [(int i + 1, err')] else Errs doc)\<rparr>"
  from assms d have "update p1 doc1 slot = Return (p', doc')"
    by (auto simp: parseLine_def andThen_def Let_def doc1_def err'_def split: if_splits option.splits)
  moreover have "Records doc1 = Records doc @ [slot]" "HRecordsByTLC doc1 = HRecordsByTLC doc"
    "BRecords doc1 = BRecords doc" "KRecords doc1 = KRecords doc"
    "Errs doc1 = Errs doc \<or> (\<exists>e. e \<noteq> [] \<and> Errs doc1 = Errs doc @ [(int i + 1, e)])"
    by (simp_all add: doc1_def)
  ultimately show ?thesis using d by blast
qed

lemma timestamps_snoc:
  "timestamps (rs @ [r]) = timestamps rs @ (case recordTime r of None \<Rightarrow> [] | Some t \<Rightarrow> [t])"
  by (simp add: timestamps_def map_filter_def split: option.splits)

lemma parseLine_timeInv:
  assumes "parseLine i lineStr (p, doc) = Return (p', doc')" and "timeInv p doc"
  shows "timeInv p' doc'"
proof (cases "lineStr = []")
  case True
  with assms show ?thesis by (simp add: parseLine_def)
next
  case False
  from parseLine_nonempty [OF False assms(1)] obtain slot err p1 doc1 where
    d: "dispatch p lineStr = Return ((slot, err), p1)"
    and doc1: "Records doc1 = Records doc @ [slot]"
    and u: "update p1 doc1 slot = Return (p', doc')"
    by blast
  from update_frame [OF u] doc1 have
    recs: "Records doc' = Records doc @ [slot]" and prev: "prevTime p' = prevTime p1"
    and date: "date p' = (case headerDate slot of None \<Rightarrow> date p1 | Some d \<Rightarrow> d)"
    by simp_all
  from d show ?thesis
  proof (cases rule: dispatch_cases)
    case plain
    show ?thesis
    proof (cases "headerDate slot")
      case None
      with plain assms(2) recs prev date show ?thesis
        by (simp add: timeInv_def timestamps_snoc)
    next
      case (Some dt)
      with dispatch_header [OF d Some] plain assms(2) recs prev date show ?thesis
        by (simp add: timeInv_def timestamps_snoc)
    qed
  next
    case (timed t h m s ns e e')
    from timed(1) show ?thesis
    proof (cases rule: parseTime_cases)
      case nodate
      with timed assms(2) recs prev date show ?thesis
        by (auto simp: timeInv_def timestamps_snoc sorted_append)
    next
      case (dated k)
      have "0 \<le> int k * oneDay" by (simp add: oneDay_def)
      moreover have "(date p + int k * oneDay) mod oneDay = date p mod oneDay" by simp
      ultimately show ?thesis using dated timed assms(2) recs prev date
        by (auto simp: timeInv_def timestamps_snoc sorted_append)
    qed
  qed
qed

lemma parseLinesLoop_timeInv:
  assumes "parseLinesLoop i lines (p, doc) = Return (p', doc')" and "timeInv p doc"
  shows "timeInv p' doc'"
  using assms
proof (induction lines arbitrary: i p doc)
  case Nil
  then show ?case by simp
next
  case (Cons l ls)
  from Cons.prems(1) obtain p1 doc1 where
    1: "parseLine i l (p, doc) = Return (p1, doc1)"
    and 2: "parseLinesLoop (Suc i) ls (p1, doc1) = Return (p', doc')"
    by (auto simp: andThen_Return)
  from parseLine_timeInv [OF 1 Cons.prems(2)] have "timeInv p1 doc1" .
  with 2 show ?case by (rule Cons.IH)
qed

lemma timeInv_init: "timeInv (newParser allow) emptyIGC"
  by (simp add: timeInv_def newParser_def emptyIGC_def timestamps_def map_filter_def)

lemma run_timeInv: "run allow lines = Return (p, doc) \<Longrightarrow> timeInv p doc"
  unfolding run_def by (erule parseLinesLoop_timeInv) (rule timeInv_init)

lemma ParseLines_run:
  "run allow lines = Return (p, doc) \<Longrightarrow> ParseLines lines allow = Return doc"
  by (simp add: ParseLines_def parseLines_def run_def andThen_def)

lemma parseLine_header_prevTime:
  assumes "parseLine i (CHR ''H'' # h) (p, doc) = Return (p', doc')"
  shows "prevTime p' = prevTime p"
proof -
  from parseLine_nonempty [OF _ assms] obtain slot err p1 doc1 where
    u: "update p1 doc1 slot = Return (p', doc')"
    and d: "dispatch p (CHR ''H'' # h) = Return ((slot, err), p1)"
    by blast
  from d have "p1 = p" by (simp add: dispatch_def)
  with update_frame [OF u] show ?thesis by simp
qed








lemma dispatch_unknown:
  assumes "c \<notin> set ''ABCDEFGHIJKLMN''"
  shows "dispatch p (c # cs) = Return ((NilInterface, [UnknownRecordTypeError c]), p)"
  using assms by (simp add: dispatch_def)

lemma parseLine_unknown:
  assumes "c \<notin> set ''ABCDEFGHIJKLMN''"
  shows "parseLine i (c # cs) (p, doc) =
           Return (p, doc\<lparr>Records := Records doc @ [NilInterface],
                           Errs := Errs doc @
                             [(int i + 1,
                               UnknownRecordTypeError c #
                                 (if allowInvalidChars p then []
                                  else (case invalidCharsRx (c # cs) of
                                          None \<Rightarrow> [] | Some x \<Rightarrow> [InvalidCharError x])))]\<rparr>)"
  by (simp add: parseLine_def dispatch_unknown [OF assms] andThen_def update_def Let_def
           split: option.splits)

lemma dispatch_frame:
  assumes "dispatch p line = Return ((slot, err), p')"
  shows "p' = p\<lparr>date := date p', prevTime := prevTime p'\<rparr>"
  using assms
proof (cases rule: dispatch_cases)
  case plain
  then show ?thesis by simp
next
  case (timed t h m s ns e e')
  from timed(1) show ?thesis by (cases rule: parseTime_cases) simp_all
qed

text \<open>Nothing ever adds to \<open>cRecords\<close>: it is empty in every state of a parse.\<close>

lemma parseLine_cRecords:
  assumes "parseLine i lineStr (p, doc) = Return (p', doc')"
  shows "cRecords p' = cRecords p"
proof (cases "lineStr = []")
  case True
  with assms show ?thesis by (simp add: parseLine_def)
next
  case False
  from parseLine_nonempty [OF False assms] obtain slot err p1 doc1 where
    u: "update p1 doc1 slot = Return (p', doc')"
    and d: "dispatch p lineStr = Return ((slot, err), p1)"
    by blast
  from dispatch_frame [OF d] have "cRecords p1 = cRecords p"
    by (metis parser.select_convs(4) parser.surjective parser.update_convs(2,3))
  with update_frame [OF u] show ?thesis by simp
qed

lemma parseLinesLoop_cRecords:
  assumes "parseLinesLoop i lines (p, doc) = Return (p', doc')"
  shows "cRecords p' = cRecords p"
  using assms
proof (induction lines arbitrary: i p doc)
  case Nil
  then show ?case by simp
next
  case (Cons l ls)
  from Cons.prems obtain p1 doc1 where
    1: "parseLine i l (p, doc) = Return (p1, doc1)"
    and 2: "parseLinesLoop (Suc i) ls (p1, doc1) = Return (p', doc')"
    by (auto simp: andThen_Return)
  from Cons.IH [OF 2] parseLine_cRecords [OF 1] show ?case by simp
qed

lemma run_cRecords: "run allow lines = Return (p, doc) \<Longrightarrow> cRecords p = []"
  unfolding run_def by (drule parseLinesLoop_cRecords) (simp add: newParser_def)

text \<open>So in every state of a parse a C line is tried against the declaration shape first.\<close>

lemma run_parseCRecord:
  assumes "run allow lines = Return (p, doc)" and "cRecordDeclarationRx line = Some m"
  shows "dynamicType (fst (parseCRecord p line)) = ''*CRecordDeclaration''"
  using run_cRecords [OF assms(1)] assms(2)
  by (simp add: parseCRecord_def parseCRecordDeclaration_def)

text \<open>What a declaration record does to the addition tables: a J or an M record replaces
  its table, an I record appends to the table of the B records.\<close>

lemma update_JRecord:
  "update p doc (Pointer (JRecord additions)) = Return (p\<lparr>kRecordAdditions := additions\<rparr>, doc)"
  by (simp add: update_def)

lemma update_MRecord:
  "update p doc (Pointer (MRecord additions)) = Return (p\<lparr>nRecordAdditions := additions\<rparr>, doc)"
  by (simp add: update_def)

lemma update_IRecord:
  assumes "update p doc (Pointer (IRecord additions)) = Return (p', doc')"
  shows "bRecordAdditions p' = bRecordAdditions p @ additions"
  using assms by (auto simp: update_def andThen_Return dest: installIRecord_frame)

subsection \<open>Lines that the expressions match\<close>

lemma matchClasses_intro:
  "list_all2 (\<lambda>p c. p c) ps g \<Longrightarrow> matchClasses ps (g @ r) = Some (g, r)"
  by (induction ps g rule: list_all2_induct) simp_all

lemma matchClasses_two_intro: "twoDigits g \<Longrightarrow> matchClasses (digits 2) (g @ r) = Some (g, r)"
  by (rule matchClasses_intro)
     (auto simp: twoDigits_def digits_def list_all2_conv_all_nth list_all_length)

lemma eRecordWithoutTLCRx_intro:
  assumes "twoDigits hh" "twoDigits mm" "twoDigits ss" "dotStar t"
  shows "eRecordWithoutTLCRx (CHR ''E'' # hh @ mm @ ss @ t)
           = Some [CHR ''E'' # hh @ mm @ ss @ t, hh, mm, ss, t]"
  using assms
  by (simp add: eRecordWithoutTLCRx_def withRest_def prefixed_def lit_def matchClasses_two_intro)

lemma hRecordWithInvalidSourceRx_intro:
  assumes "isUpper s" "length tlc = 3" "list_all isDigitOrUpper tlc" "dotStar t"
  shows "hRecordWithInvalidSourceRx (CHR ''H'' # s # tlc @ t) \<noteq> None"
proof -
  from assms(2,3) have "list_all2 (\<lambda>p c. p c) (replicate 3 isDigitOrUpper) tlc"
    by (auto simp: list_all2_conv_all_nth list_all_length)
  then have "matchClasses (replicate 3 isDigitOrUpper) (tlc @ t) = Some (tlc, t)"
    by (rule matchClasses_intro)
  with assms(1,4) show ?thesis
    by (simp add: hRecordWithInvalidSourceRx_def hRx_def prefixed_def lit_def)
qed

lemma lRecordWithoutTLCRx_intro:
  "dotStar t \<Longrightarrow> lRecordWithoutTLCRx (CHR ''L'' # t) = Some [CHR ''L'' # t, t]"
  by (simp add: lRecordWithoutTLCRx_def withRest_def prefixed_def lit_def)

lemma parseERecord_fallback:
  assumes "eRecordWithoutTLCRx line = Some m"
  shows "\<exists>r. fst (fst (parseERecord p line)) = Pointer r \<and> Valid r = (eRecordRx line \<noteq> None)"
  using assms by (auto simp: parseERecord_def split: option.splits prod.splits)

lemma parseHRecord_fallback:
  assumes "hRecordWithInvalidSourceRx line \<noteq> None"
  shows "\<exists>r. fst (parseHRecord line) = Pointer r
           \<and> Valid r = (hfdteRecordRx line \<noteq> None \<or> hffxaRecordRx line \<noteq> None \<or> hRecordRx line \<noteq> None)"
  using assms by (auto simp: parseHRecord_def Let_def split: option.splits)

lemma parseLRecord_fallback:
  assumes "lRecordWithoutTLCRx line = Some m"
  shows "\<exists>r. fst (parseLRecord line) = Pointer r \<and> Valid r = (lRecordRx line \<noteq> None)"
  using assms by (auto simp: parseLRecord_def split: option.splits)

subsection \<open>intPow\<close>







subsection \<open>The addition tables in every state of a parse\<close>
















subsection \<open>The fractional second of a fix\<close>










section \<open>The claims\<close>

subsection \<open>Claim C10: decoding an installed addition never slices out of range\<close>

text \<open>
  C10. Every addition that the declaration grammar accepts starts at the expected column
  (36 for an I record, 8 for a J or an M record, afterwards one past the previous finish
  column) and does not finish before it starts. So for an addition installed by an I, J or
  M record, \<^verbatim>\<open>bytesValue\<close> never panics, whatever the line: on a line shorter than the
  finish column it reports the missing addition, and on a line that reaches the finish
  column the bounds of the slice \<^verbatim>\<open>line[StartColumn-1 : FinishColumn]\<close> are in range
  and the slice is returned.
\<close>

theorem addition_slice_in_bounds:
  assumes "parseIRecord decl = Return (Some (IRecord adds), e)
         \<or> parseJRecord decl = Return (Some (JRecord adds), e)
         \<or> parseMRecord decl = Return (Some (MRecord adds), e)"
    and "a \<in> set adds"
  shows "bytesValue a line errs \<noteq> Panic \<and>
         (FinishColumn a \<le> int (length line) \<longrightarrow>
            0 \<le> StartColumn a - 1 \<and> StartColumn a - 1 \<le> FinishColumn a \<and>
            bytesValue a line errs =
              Return (take (nat (FinishColumn a - (StartColumn a - 1))) (drop (nat (StartColumn a - 1)) line),
                      errs, True))"
proof -
  from assms(1) obtain s es where "parseRecordAdditions decl s = Return (adds, es)" and "8 \<le> s"
    by (auto simp: parseIRecord_def parseJRecord_def parseMRecord_def andThen_def
             split: exec.splits prod.splits if_splits)
  with assms(2) have "columnsOK s a" by (auto dest: parseRecordAdditions_columns)
  with \<open>8 \<le> s\<close> have "1 \<le> StartColumn a" "StartColumn a \<le> FinishColumn a"
    by (auto simp: columnsOK_def)
  then show ?thesis by (auto simp: bytesValue_def slice_def)
qed

theorem addition_slice_in_bounds_witness:
  "parseIRecord ''I023638FXA3940SIU'' =
     Return (Some (IRecord [\<lparr>TLC = ''FXA'', StartColumn = 36, FinishColumn = 38\<rparr>,
                            \<lparr>TLC = ''SIU'', StartColumn = 39, FinishColumn = 40\<rparr>]), [])
   \<and> bytesValue \<lparr>TLC = ''SIU'', StartColumn = 39, FinishColumn = 40\<rparr>
        ''B1005364607690N00610358EA000000126500612'' [] = Return (''12'', [], True)
   \<and> bytesValue \<lparr>TLC = ''SIU'', StartColumn = 39, FinishColumn = 40\<rparr>
        ''B1005364607690N00610358EA0000001265006'' [] \<noteq> Panic"
proof -
  have "parseRecordAdditions ''I023638FXA3940SIU'' 36 =
     Return ([\<lparr>TLC = ''FXA'', StartColumn = 36, FinishColumn = 38\<rparr>,
              \<lparr>TLC = ''SIU'', StartColumn = 39, FinishColumn = 40\<rparr>], [])"
    by code_simp
  then have decl: "parseIRecord ''I023638FXA3940SIU'' =
     Return (Some (IRecord [\<lparr>TLC = ''FXA'', StartColumn = 36, FinishColumn = 38\<rparr>,
                            \<lparr>TLC = ''SIU'', StartColumn = 39, FinishColumn = 40\<rparr>]), [])"
    by (simp add: parseIRecord_def andThen_def)
  have mem: "\<lparr>TLC = ''SIU'', StartColumn = 39, FinishColumn = 40\<rparr>
      \<in> set [\<lparr>TLC = ''FXA'', StartColumn = 36, FinishColumn = 38\<rparr>,
              \<lparr>TLC = ''SIU'', StartColumn = 39, FinishColumn = 40\<rparr>]"
    by simp
  from addition_slice_in_bounds [OF disjI1 [OF decl] mem,
      of "''B1005364607690N00610358EA000000126500612''" "[]"]
    addition_slice_in_bounds [OF disjI1 [OF decl] mem,
      of "''B1005364607690N00610358EA0000001265006''" "[]"]
    decl
  show ?thesis by simp
qed

subsection \<open>Claim C1: times never decrease\<close>

text \<open>
  C1. The times given to the time-bearing records (B, E, F, K and N records), in line order,
  never decrease, and none is later than the watermark \<open>prevTime\<close> of the parser; a header
  line, which may overwrite the current date, leaves the watermark as it was.
\<close>

theorem timestamps_never_decrease:
  assumes "run allow lines = Return (p, doc)"
  shows "ParseLines lines allow = Return doc
       \<and> sorted (timestamps (Records doc))
       \<and> (\<forall>t \<in> set (timestamps (Records doc)). t \<le> prevTime p)
       \<and> (\<forall>i h p' doc'. parseLine i (CHR ''H'' # h) (p, doc) = Return (p', doc')
             \<longrightarrow> prevTime p' = prevTime p)"
  using run_timeInv [OF assms] ParseLines_run [OF assms] parseLine_header_prevTime
  by (auto simp: timeInv_def)

theorem timestamps_never_decrease_witness:
  "(case run False [''HFDTE020508'', ''B2359594607690N00610358EA0000001265'',
                    ''B0000014607690N00610358EA0000001265'', ''HFDTE010508'',
                    ''B0000024607690N00610358EA0000001265''] of
      Return (p, doc) \<Rightarrow>
        timestamps (Records doc) =
          [63345369599000000000, 63345369601000000000, 63345369602000000000]
        \<and> sorted (timestamps (Records doc))
    | _ \<Rightarrow> False)"
proof -
  let ?L = "[''HFDTE020508'', ''B2359594607690N00610358EA0000001265'',
             ''B0000014607690N00610358EA0000001265'', ''HFDTE010508'',
             ''B0000024607690N00610358EA0000001265'']"
  have ts: "(case run False ?L of
      Return (p, doc) \<Rightarrow>
        timestamps (Records doc) =
          [63345369599000000000, 63345369601000000000, 63345369602000000000]
    | _ \<Rightarrow> False)"
    by code_simp
  then obtain p doc where r: "run False ?L = Return (p, doc)"
    by (cases "run False ?L") auto
  from timestamps_never_decrease [OF r] ts r show ?thesis by simp
qed

subsection \<open>Claim C9: the rollover loop ends\<close>

text \<open>
  C9. Once a date has been established (the current date is not the zero time),
  \<open>parseTime\<close> returns: its loop advances the date by some number \<open>k\<close> of whole days, the
  time returned is the first candidate (date plus duration since midnight) that is not
  earlier than the watermark, every earlier candidate being earlier than the watermark,
  and the watermark becomes that time. This holds for every date, duration and watermark.
\<close>

theorem rollover_terminates:
  assumes "date p \<noteq> 0"
  shows "\<exists>k. parseTime p hourData minuteData secondData nanosecond errs =
           ((date p + int k * oneDay + durationSinceMidnight hourData minuteData secondData nanosecond,
             errs),
            p\<lparr>date := date p + int k * oneDay,
              prevTime := date p + int k * oneDay
                          + durationSinceMidnight hourData minuteData secondData nanosecond\<rparr>)
        \<and> \<not> date p + int k * oneDay + durationSinceMidnight hourData minuteData secondData nanosecond
              < prevTime p
        \<and> (\<forall>j<k. date p + int j * oneDay
                     + durationSinceMidnight hourData minuteData secondData nanosecond < prevTime p)"
  using assms by (rule parseTime_dated)

theorem rollover_terminates_witness:
  "date ((newParser False)\<lparr>date := 63345283200000000000, prevTime := 63345369599000000000\<rparr>) \<noteq> 0
   \<and> fst (fst (parseTime ((newParser False)\<lparr>date := 63345283200000000000,
                                              prevTime := 63345369599000000000\<rparr>)
                  ''00'' ''00'' ''01'' 0 [])) = 63345369601000000000"
proof -
  define P where "P = (newParser False)\<lparr>date := 63345283200000000000, prevTime := 63345369599000000000\<rparr>"
  have d: "date P \<noteq> 0" by (simp add: P_def)
  have dur: "durationSinceMidnight ''00'' ''00'' ''01'' 0 = 1000000000" by code_simp
  from rollover_terminates [OF d [unfolded P_def], of "''00''" "''00''" "''01''" 0 "[]"] obtain k where
    t: "fst (fst (parseTime P ''00'' ''00'' ''01'' 0 [])) = date P + int k * oneDay + 1000000000"
    and ge: "\<not> date P + int k * oneDay + 1000000000 < prevTime P"
    and lt: "\<forall>j<k. date P + int j * oneDay + 1000000000 < prevTime P"
    unfolding dur P_def [symmetric] by fastforce
  from ge have "k \<noteq> 0" by (auto simp: P_def oneDay_def)
  moreover have "k < 2"
  proof (rule ccontr)
    assume "\<not> k < 2"
    then have "1 < k" by simp
    with lt have "date P + int 1 * oneDay + 1000000000 < prevTime P" by blast
    then show False by (simp add: P_def oneDay_def)
  qed
  ultimately have "k = 1" by simp
  with t d show ?thesis by (simp add: P_def oneDay_def)
qed

subsection \<open>Claim C6: one slot per line that is not empty\<close>




subsection \<open>Claim C7: unknown record types\<close>

text \<open>
  C7. A line whose first character is none of the letters A to N gets the nil slot and one
  error entry, tagged with its line number, that begins with the unknown-record-type error
  for that character (followed by the invalid-character error, if the line has such a
  character and they are not allowed); the state of the parser is unchanged. In particular
  the single line \<open>X\<close> gives exactly one slot, holding no record, and exactly one error, the
  unknown-record-type error at line 1. The message of the error shows the character itself
  when it is printable and the escaped form \<^verbatim>\<open>"\xHH"\<close> with two upper-case hexadecimal
  digits otherwise. The printable bytes are \<open>0x20\<close> to \<open>0x7E\<close>, \<open>0xA1\<close> to \<open>0xAC\<close> and
  \<open>0xAE\<close> to \<open>0xFF\<close>; the character itself is the byte when it is below \<open>0x80\<close> and
  the two bytes of the UTF-8 form of that code point from \<open>0x80\<close> on, as \<^verbatim>\<open>string(e)\<close>
  gives them. So the message is stated for every byte.
\<close>

theorem unknown_record_type:
  "(c \<notin> set ''ABCDEFGHIJKLMN'' \<longrightarrow>
      parseLine i (c # cs) (p, doc) =
        Return (p, doc\<lparr>Records := Records doc @ [NilInterface],
                        Errs := Errs doc @
                          [(int i + 1,
                            UnknownRecordTypeError c #
                              (if allowInvalidChars p then []
                               else (case invalidCharsRx (c # cs) of
                                       None \<Rightarrow> [] | Some x \<Rightarrow> [InvalidCharError x])))]\<rparr>))
   \<and> map_option Records (returned (ParseLines [''X''] False)) = Some [NilInterface]
   \<and> map_option Errs (returned (ParseLines [''X''] False)) = Some [(1, [UnknownRecordTypeError CHR ''X''])]
   \<and> (0x20 \<le> byte c \<and> byte c \<le> 0x7E \<longrightarrow>
        unknownRecordTypeError_Error c = c # '': unknown record type'')
   \<and> (\<not> unicode_IsPrint c \<longrightarrow>
        unknownRecordTypeError_Error c =
          [CHR 0x22, CHR 0x5C, CHR ''x'', hexDigitUpper (byte c div 16), hexDigitUpper (byte c mod 16),
           CHR 0x22] @ '': unknown record type'')
   \<and> unknownRecordTypeError_Error CHR ''X'' = ''X: unknown record type''
   \<and> unknownRecordTypeError_Error (CHR 0x00) = [CHR 0x22, CHR 0x5C] @ ''x00'' @ [CHR 0x22] @ '': unknown record type''
   \<and> (unicode_IsPrint c \<longleftrightarrow>
        (0x20 \<le> byte c \<and> byte c \<le> 0x7E) \<or> (0xA1 \<le> byte c \<and> byte c \<le> 0xAC) \<or> 0xAE \<le> byte c)
   \<and> (unicode_IsPrint c \<and> byte c < 0x80 \<longrightarrow>
        unknownRecordTypeError_Error c = c # '': unknown record type'')
   \<and> (unicode_IsPrint c \<and> 0x80 \<le> byte c \<longrightarrow>
        unknownRecordTypeError_Error c =
          [char_of (0xC0 + byte c div 64), char_of (0x80 + byte c mod 64)] @ '': unknown record type'')
   \<and> unknownRecordTypeError_Error (CHR 0xE9) = [CHR 0xC3, CHR 0xA9] @ '': unknown record type''
   \<and> unknownRecordTypeError_Error (CHR 0xA0) = [CHR 0x22, CHR 0x5C] @ ''xA0'' @ [CHR 0x22] @ '': unknown record type''"
proof -
  have x: "CHR ''X'' \<notin> set ''ABCDEFGHIJKLMN''" by simp
  have v: "invalidCharsRx ''X'' = None"
    by (simp add: invalidCharsRx_def allowedChar_def byte_def)
  have "parseLines (newParser False) [''X''] =
          Return (emptyIGC\<lparr>Records := [NilInterface],
                           Errs := [(1, [UnknownRecordTypeError CHR ''X''])]\<rparr>)"
    by (simp add: parseLines_def parseLine_unknown [OF x] andThen_def v newParser_def emptyIGC_def)
  then have single: "map_option Records (returned (ParseLines [''X''] False)) = Some [NilInterface]"
    "map_option Errs (returned (ParseLines [''X''] False)) = Some [(1, [UnknownRecordTypeError CHR ''X''])]"
    by (simp_all add: ParseLines_def returned_def)
  have ascii: "0x20 \<le> byte c \<and> byte c \<le> 0x7E \<longrightarrow>
        unknownRecordTypeError_Error c = c # '': unknown record type''"
    by (simp add: unknownRecordTypeError_Error_def unicode_IsPrint_def runeString_def)
  have m1: "unknownRecordTypeError_Error CHR ''X'' = ''X: unknown record type''"
    by (simp add: unknownRecordTypeError_Error_def unicode_IsPrint_def runeString_def byte_def)
  have m2: "unknownRecordTypeError_Error (CHR 0x00)
      = [CHR 0x22, CHR 0x5C] @ ''x00'' @ [CHR 0x22] @ '': unknown record type''"
    by (simp add: unknownRecordTypeError_Error_def unicode_IsPrint_def hexDigitUpper_def byte_def)
  have pr: "unicode_IsPrint c \<longleftrightarrow>
        (0x20 \<le> byte c \<and> byte c \<le> 0x7E) \<or> (0xA1 \<le> byte c \<and> byte c \<le> 0xAC) \<or> 0xAE \<le> byte c"
    using byte_le [of c] by (auto simp: unicode_IsPrint_def Let_def)
  have low: "unicode_IsPrint c \<and> byte c < 0x80 \<longrightarrow>
        unknownRecordTypeError_Error c = c # '': unknown record type''"
    by (simp add: unknownRecordTypeError_Error_def runeString_def)
  have high: "unicode_IsPrint c \<and> 0x80 \<le> byte c \<longrightarrow>
        unknownRecordTypeError_Error c =
          [char_of (0xC0 + byte c div 64), char_of (0x80 + byte c mod 64)] @ '': unknown record type''"
    by (simp add: unknownRecordTypeError_Error_def runeString_def)
  have m3: "unknownRecordTypeError_Error (CHR 0xE9) = [CHR 0xC3, CHR 0xA9] @ '': unknown record type''"
    by code_simp
  have m4: "unknownRecordTypeError_Error (CHR 0xA0)
      = [CHR 0x22, CHR 0x5C] @ ''xA0'' @ [CHR 0x22] @ '': unknown record type''"
    by code_simp
  have esc: "\<not> unicode_IsPrint c \<longrightarrow>
        unknownRecordTypeError_Error c =
          [CHR 0x22, CHR 0x5C, CHR ''x'', hexDigitUpper (byte c div 16), hexDigitUpper (byte c mod 16),
           CHR 0x22] @ '': unknown record type''"
    by (simp add: unknownRecordTypeError_Error_def)
  have line: "c \<notin> set ''ABCDEFGHIJKLMN'' \<longrightarrow>
      parseLine i (c # cs) (p, doc) =
        Return (p, doc\<lparr>Records := Records doc @ [NilInterface],
                        Errs := Errs doc @
                          [(int i + 1,
                            UnknownRecordTypeError c #
                              (if allowInvalidChars p then []
                               else (case invalidCharsRx (c # cs) of
                                       None \<Rightarrow> [] | Some x \<Rightarrow> [InvalidCharError x])))]\<rparr>)"
    using parseLine_unknown by blast
  show ?thesis
    by (intro conjI) (rule line single ascii esc m1 m2 pr low high m3 m4)+
qed

theorem unknown_record_type_witness:
  "CHR ''X'' \<notin> set ''ABCDEFGHIJKLMN''
   \<and> parseLine 0 ''X'' (newParser False, emptyIGC) =
       Return (newParser False,
               emptyIGC\<lparr>Records := [NilInterface], Errs := [(1, [UnknownRecordTypeError CHR ''X''])]\<rparr>)
   \<and> 0x20 \<le> byte CHR ''X'' \<and> byte CHR ''X'' \<le> 0x7E
   \<and> unicode_IsPrint CHR ''X'' \<and> byte CHR ''X'' < 0x80
   \<and> unknownRecordTypeError_Error CHR ''X'' = ''X: unknown record type''
   \<and> \<not> unicode_IsPrint (CHR 0x07)
   \<and> unknownRecordTypeError_Error (CHR 0x07) = [CHR 0x22, CHR 0x5C] @ ''x07'' @ [CHR 0x22] @ '': unknown record type''
   \<and> unicode_IsPrint (CHR 0xF7) \<and> 0x80 \<le> byte (CHR 0xF7)
   \<and> unknownRecordTypeError_Error (CHR 0xF7) = [CHR 0xC3, CHR 0xB7] @ '': unknown record type''"
proof -
  have v: "invalidCharsRx ''X'' = None"
    by (simp add: invalidCharsRx_def allowedChar_def byte_def)
  have np: "\<not> unicode_IsPrint (CHR 0x07)" by (simp add: unicode_IsPrint_def byte_def)
  have hp: "unicode_IsPrint (CHR 0xF7) \<and> 0x80 \<le> byte (CHR 0xF7)
      \<and> unicode_IsPrint CHR ''X'' \<and> byte CHR ''X'' < 0x80"
    by (simp add: unicode_IsPrint_def byte_def)
  have ch: "char_of (0xC0 + byte (CHR 0xF7) div 64) = CHR 0xC3
      \<and> char_of (0x80 + byte (CHR 0xF7) mod 64) = CHR 0xB7"
    by code_simp
  from unknown_record_type [of "CHR ''X''" 0 "[]" "newParser False" emptyIGC]
    unknown_record_type [of "CHR 0x07" 0 "[]" "newParser False" emptyIGC]
    unknown_record_type [of "CHR 0xF7" 0 "[]" "newParser False" emptyIGC] v np hp ch
  show ?thesis by (simp add: newParser_def emptyIGC_def byte_def hexDigitUpper_def)
qed

subsection \<open>Claim C4: the declaration shape of C records\<close>

text \<open>
  C4. The code at the failing input: of two C lines of the declaration shape, the second,
  which is not the first C line of the file and does not have the waypoint shape, is parsed
  as a declaration all the same, and without an error.
\<close>

theorem later_C_line_tried_as_declaration:
  "map_option (map dynamicType \<circ> Records)
     (returned (ParseLines [''C110524093545000000000502'', ''C110524093545000000000502''] False))
     = Some [''*CRecordDeclaration'', ''*CRecordDeclaration'']
   \<and> map_option Errs
     (returned (ParseLines [''C110524093545000000000502'', ''C110524093545000000000502''] False))
     = Some []
   \<and> cRecordWaypointRx ''C110524093545000000000502'' = None"
  by code_simp

subsection \<open>Claim C2: a declaration record replaces the addition table of its kind\<close>

text \<open>
  C2. The code at the failing input: after two I records, each declaring one addition in
  columns 36 to 38, the table of the B records holds both additions, and a B record that
  follows decodes both codes from those columns. After two J records or two M records the
  table holds the additions of the second one only, and a K record decodes only these.
\<close>

theorem second_I_record_is_merged:
  "map_option (bRecordAdditions \<circ> fst) (returned (run False [''I013638FXA'', ''I013638SIU'']))
     = Some [\<lparr>TLC = ''FXA'', StartColumn = 36, FinishColumn = 38\<rparr>,
             \<lparr>TLC = ''SIU'', StartColumn = 36, FinishColumn = 38\<rparr>]
   \<and> map_option (map (\<lambda>slot. map (Additions slot) [''FXA'', ''SIU'']) \<circ> Records)
       (returned (ParseLines [''I013638FXA'', ''I013638SIU'', ''HFDTE020508'',
                              ''B1005364607690N00610358EA0000001265123''] False))
     = Some [[None, None], [None, None], [None, None], [Some 123, Some 123]]
   \<and> map_option (kRecordAdditions \<circ> fst) (returned (run False [''J010810WDI'', ''J010810WSP'']))
     = Some [\<lparr>TLC = ''WSP'', StartColumn = 8, FinishColumn = 10\<rparr>]
   \<and> map_option (nRecordAdditions \<circ> fst) (returned (run False [''M010810WDI'', ''M010810WSP'']))
     = Some [\<lparr>TLC = ''WSP'', StartColumn = 8, FinishColumn = 10\<rparr>]
   \<and> map_option (map (\<lambda>slot. map (Additions slot) [''WDI'', ''WSP'']) \<circ> Records)
       (returned (ParseLines [''J010810WDI'', ''J010810WSP'', ''HFDTE020508'',
                              ''K100536123''] False))
     = Some [[None, None], [None, None], [None, None], [None, Some 123]]"
  by code_simp

subsection \<open>Claim C5: the lenient fallback shapes\<close>

text \<open>
  C5, as amended. A line that has the fallback shape of its record type always produces a
  record: an E line with six digits after the letter, an H line with an upper-case source
  letter and a code of three digits or upper-case letters after the letter, and every L
  line (the rest of the line being free of line feeds). The record reports \<open>Valid\<close> exactly
  when a stricter expression of the type matched the line, so a record produced through the
  fallback is not valid. A line on which no expression of its type matches gives the nil
  record and the error that the record is invalid.
\<close>

theorem fallback_shapes_produce_records:
  "(twoDigits hh \<and> twoDigits mm \<and> twoDigits ss \<and> dotStar t \<longrightarrow>
      (\<exists>r. fst (fst (parseERecord p (CHR ''E'' # hh @ mm @ ss @ t))) = Pointer r
          \<and> Valid r = (eRecordRx (CHR ''E'' # hh @ mm @ ss @ t) \<noteq> None)))
   \<and> (isUpper s \<and> length tlc = 3 \<and> list_all isDigitOrUpper tlc \<and> dotStar t \<longrightarrow>
      (\<exists>r. fst (parseHRecord (CHR ''H'' # s # tlc @ t)) = Pointer r
          \<and> Valid r = (hfdteRecordRx (CHR ''H'' # s # tlc @ t) \<noteq> None
                      \<or> hffxaRecordRx (CHR ''H'' # s # tlc @ t) \<noteq> None
                      \<or> hRecordRx (CHR ''H'' # s # tlc @ t) \<noteq> None)))
   \<and> (dotStar t \<longrightarrow>
      (\<exists>r. fst (parseLRecord (CHR ''L'' # t)) = Pointer r
          \<and> Valid r = (lRecordRx (CHR ''L'' # t) \<noteq> None)))
   \<and> (eRecordRx line = None \<and> eRecordWithoutTLCRx line = None \<longrightarrow>
        fst (parseERecord p line) = (NilInterface, [InvalidRecordError CHR ''E'']))
   \<and> (hfdteRecordRx line = None \<and> hffxaRecordRx line = None \<and> hRecordRx line = None
        \<and> hRecordWithInvalidSourceRx line = None \<longrightarrow>
        parseHRecord line = (NilInterface, [InvalidRecordError CHR ''H'']))
   \<and> (lRecordRx line = None \<and> lRecordWithoutTLCRx line = None \<longrightarrow>
        parseLRecord line = (NilInterface, [InvalidRecordError CHR ''L'']))"
proof -
  have e: "\<exists>r. fst (fst (parseERecord p (CHR ''E'' # hh @ mm @ ss @ t))) = Pointer r
          \<and> Valid r = (eRecordRx (CHR ''E'' # hh @ mm @ ss @ t) \<noteq> None)"
    if "twoDigits hh \<and> twoDigits mm \<and> twoDigits ss \<and> dotStar t"
    using that by (intro parseERecord_fallback) (simp add: eRecordWithoutTLCRx_intro)
  have h: "\<exists>r. fst (parseHRecord (CHR ''H'' # s # tlc @ t)) = Pointer r
          \<and> Valid r = (hfdteRecordRx (CHR ''H'' # s # tlc @ t) \<noteq> None
                      \<or> hffxaRecordRx (CHR ''H'' # s # tlc @ t) \<noteq> None
                      \<or> hRecordRx (CHR ''H'' # s # tlc @ t) \<noteq> None)"
    if "isUpper s \<and> length tlc = 3 \<and> list_all isDigitOrUpper tlc \<and> dotStar t"
    using that by (intro parseHRecord_fallback hRecordWithInvalidSourceRx_intro) simp_all
  have l: "\<exists>r. fst (parseLRecord (CHR ''L'' # t)) = Pointer r
          \<and> Valid r = (lRecordRx (CHR ''L'' # t) \<noteq> None)"
    if "dotStar t"
    using that by (intro parseLRecord_fallback) (simp add: lRecordWithoutTLCRx_intro)
  show ?thesis using e h l
    by (simp add: parseERecord_def parseHRecord_def parseLRecord_def)
qed

theorem fallback_shapes_produce_records_witness:
  "twoDigits ''10'' \<and> twoDigits ''01'' \<and> twoDigits ''53'' \<and> dotStar ''xx''
   \<and> isUpper CHR ''S'' \<and> length ''CCL'' = 3 \<and> list_all isDigitOrUpper ''CCL''
   \<and> eRecordRx ''E100153xx'' = None
   \<and> (\<exists>r. fst (fst (parseERecord (newParser False) ''E100153xx'')) = Pointer r \<and> \<not> Valid r)
   \<and> (\<exists>r. fst (parseHRecord ''HSCCLxx'') = Pointer r \<and> \<not> Valid r)
   \<and> (\<exists>r. fst (parseLRecord ''Lxx'') = Pointer r \<and> \<not> Valid r)
   \<and> eRecordRx ''E'' = None \<and> eRecordWithoutTLCRx ''E'' = None
   \<and> fst (parseERecord (newParser False) ''E'') = (NilInterface, [InvalidRecordError CHR ''E''])"
proof -
  have a: "twoDigits ''10'' \<and> twoDigits ''01'' \<and> twoDigits ''53'' \<and> dotStar ''xx''
     \<and> isUpper CHR ''S'' \<and> length ''CCL'' = 3 \<and> list_all isDigitOrUpper ''CCL''"
    by code_simp
  have b: "eRecordRx ''E100153xx'' = None \<and> hfdteRecordRx ''HSCCLxx'' = None
     \<and> hffxaRecordRx ''HSCCLxx'' = None \<and> hRecordRx ''HSCCLxx'' = None \<and> lRecordRx ''Lxx'' = None
     \<and> eRecordRx ''E'' = None \<and> eRecordWithoutTLCRx ''E'' = None"
    by code_simp
  from fallback_shapes_produce_records
         [of "''10''" "''01''" "''53''" "''xx''" "newParser False" "CHR ''S''" "''CCL''" "''E''"]
    a b
  show ?thesis by simp
qed

theorem fallback_always_produces_record_counterexample:
  "map_option (map dynamicType \<circ> Records) (returned (ParseLines [''E'', ''H''] False))
     = Some [''nil'', ''nil'']
   \<and> map_option Errs (returned (ParseLines [''E'', ''H''] False))
     = Some [(1, [InvalidRecordError CHR ''E'']), (2, [InvalidRecordError CHR ''H''])]"
  by code_simp

subsection \<open>Claim C8: the fractional second of a fix\<close>




subsection \<open>Claim C3: decoding the declared additions\<close>

text \<open>
  C3. The code at the failing input: after an I record that declares the addition LAD in
  column 36, a B record of 35 columns is produced without that code, but the one omitted
  code is reported by two missing-addition errors; when column 36 holds a letter, the one
  malformed code is reported by two syntax errors. An omitted code that is none of TDS,
  LAD and LOD is reported once, in a B record and in a K record alike.
\<close>

theorem special_addition_reported_twice:
  "map_option (\<lambda>doc. (Errs doc, map dynamicType (Records doc),
                       map (\<lambda>slot. Additions slot ''LAD'') (Records doc)))
     (returned (ParseLines [''HFDTE020508'', ''I013636LAD'',
                            ''B1005364607690N00610358EA0000001265''] False))
     = Some ([(3, [MissingAdditionError \<lparr>TLC = ''LAD'', StartColumn = 36, FinishColumn = 36\<rparr>,
                   MissingAdditionError \<lparr>TLC = ''LAD'', StartColumn = 36, FinishColumn = 36\<rparr>])],
             [''*HFDTERecord'', ''*IRecord'', ''*BRecord''],
             [None, None, None])
   \<and> map_option (\<lambda>doc. (Errs doc, map dynamicType (Records doc),
                       map (\<lambda>slot. Additions slot ''LAD'') (Records doc)))
     (returned (ParseLines [''HFDTE020508'', ''I013636LAD'',
                            ''B1005364607690N00610358EA0000001265X''] False))
     = Some ([(3, [AtoiSyntaxError ''X'', AtoiSyntaxError ''X''])],
             [''*HFDTERecord'', ''*IRecord'', ''*BRecord''],
             [None, None, None])
   \<and> map_option (\<lambda>doc. (Errs doc, map dynamicType (Records doc),
                       map (\<lambda>slot. map (Additions slot) [''FXA'', ''SIU'']) (Records doc)))
     (returned (ParseLines [''HFDTE040624'', ''I023638FXA3940SIU'',
                            ''B1501444708879N00832146EA0092900941006''] False))
     = Some ([(3, [MissingAdditionError \<lparr>TLC = ''SIU'', StartColumn = 39, FinishColumn = 40\<rparr>])],
             [''*HFDTERecord'', ''*IRecord'', ''*BRecord''],
             [[None, None], [None, None], [Some 6, None]])
   \<and> map_option (\<lambda>doc. (Errs doc, map dynamicType (Records doc),
                       map (\<lambda>slot. Additions slot ''WDI'') (Records doc)))
     (returned (ParseLines [''HFDTE020508'', ''J010810WDI'', ''K100536''] False))
     = Some ([(3, [MissingAdditionError \<lparr>TLC = ''WDI'', StartColumn = 8, FinishColumn = 10\<rparr>])],
             [''*HFDTERecord'', ''*JRecord'', ''*KRecord''],
             [None, None, None])"
  by code_simp

end
